theory Spec2Isabelle
  imports Complex_Main "HOL-Library.Sublist"
begin

section \<open>Chat listeners of AIChaos: moderation, rate limiting, dispatch\<close>

text \<open>
  The two listeners, \<^verbatim>\<open>twitch_listener.py\<close> and \<^verbatim>\<open>youtube_listener.py\<close>, share most
  of their helper code word for word. Shared helpers are embedded once under the name
  they have in both files; where the two files differ, the definitions carry the prefix
  \<open>twitch_\<close> or \<open>youtube_\<close>.

  A Python \<^verbatim>\<open>str\<close> is modelled as a \<open>string\<close>: one \<open>char\<close> per character, which
  covers the code points below 256. The module-level configuration constants are
  fields of a record, so that every statement holds for each configuration and not
  only for the values written in the files.
\<close>

subsection \<open>Python library functions the listeners call\<close>

text \<open>
  Library behaviour that depends on the Python version or on Unicode tables is a
  parameter of the model, collected in one record:
  \<^item> \<open>check_bracketed_netloc\<close>: whether \<^verbatim>\<open>urlparse\<close> accepts a network location that
    contains both \<^verbatim>\<open>[\<close> and \<^verbatim>\<open>]\<close> (older versions accept every such location, newer
    ones validate the bracketed host and raise \<^verbatim>\<open>ValueError\<close>);
  \<^item> \<open>str_isdigit\<close>, \<open>str_isspace\<close>: \<^verbatim>\<open>str.isdigit\<close> and the characters removed by
    \<^verbatim>\<open>str.strip\<close>;
  \<^item> \<open>float_of_str\<close>, \<open>int_of_str\<close>: \<^verbatim>\<open>float(s)\<close> and \<^verbatim>\<open>int(s)\<close>, \<open>None\<close> when they
    raise \<^verbatim>\<open>ValueError\<close>. The type \<open>'a\<close> stands for the floating point numbers.
\<close>

record 'a pylib =
  check_bracketed_netloc :: "string \<Rightarrow> bool"
  str_isdigit :: "char \<Rightarrow> bool"
  str_isspace :: "char \<Rightarrow> bool"
  float_of_str :: "string \<Rightarrow> 'a option"
  int_of_str :: "string \<Rightarrow> int option"

subsection \<open>String operations\<close>

definition in_range :: "char \<Rightarrow> char \<Rightarrow> char \<Rightarrow> bool" where
  "in_range lo hi c = ((of_char lo :: nat) \<le> of_char c \<and> (of_char c :: nat) \<le> of_char hi)"

definition ascii_alpha :: "char \<Rightarrow> bool" where
  "ascii_alpha c = (in_range CHR ''a'' CHR ''z'' c \<or> in_range CHR ''A'' CHR ''Z'' c)"

definition ascii_digit :: "char \<Rightarrow> bool" where
  "ascii_digit c = in_range CHR ''0'' CHR ''9'' c"

text \<open>\<^verbatim>\<open>s.lower()\<close>; it is only applied to network locations of matched URLs, which
  are ASCII.\<close>

definition lower_char :: "char \<Rightarrow> char" where
  "lower_char c =
     (if in_range CHR ''A'' CHR ''Z'' c
      then ''abcdefghijklmnopqrstuvwxyz'' ! (of_char c - of_char CHR ''A'')
      else c)"

definition lower :: "string \<Rightarrow> string" where
  "lower s = map lower_char s"

text \<open>\<^verbatim>\<open>a in b\<close> on strings: \<open>a\<close> occurs in \<open>b\<close> as a contiguous substring.\<close>

fun py_in :: "string \<Rightarrow> string \<Rightarrow> bool" where
  "py_in a [] = (a = [])"
| "py_in a (c # cs) = (prefix a (c # cs) \<or> py_in a cs)"

text \<open>
  \<^verbatim>\<open>s.replace(old, new)\<close>: every occurrence of \<open>old\<close> found scanning from the left,
  the scan resuming after each replaced occurrence. With \<open>old\<close> non-empty,
  \<open>drop (length old - 1) cs\<close> is \<open>drop (length old) (c # cs)\<close>. With \<open>old\<close> empty Python
  inserts \<open>new\<close> before every character and at the end.
\<close>

fun replace :: "string \<Rightarrow> string \<Rightarrow> string \<Rightarrow> string" where
  "replace old new [] = (if old = [] then new else [])"
| "replace old new (c # cs) =
     (if old = [] then new @ c # replace old new cs
      else if prefix old (c # cs) then new @ replace old new (drop (length old - 1) cs)
      else c # replace old new cs)"

subsection \<open>\<^verbatim>\<open>contains_url\<close>: the URL pattern\<close>

text \<open>
  The pattern is \<^verbatim>\<open>http[s]?://(?:[a-zA-Z]|[0-9]|[$-_@.&+]|[!*\(\),]|(?:%[0-9a-fA-F][0-9a-fA-F]))+\<close>.
  In the class \<^verbatim>\<open>[$-_@.&+]\<close> the part \<^verbatim>\<open>$-_\<close> is a range, from \<^verbatim>\<open>$\<close> (36) to \<^verbatim>\<open>_\<close> (95).
  The Twitch file writes the fourth class as \<^verbatim>\<open>[!*\\(\\),]\<close> in a raw string, which adds
  the backslash to it; the list of its characters is the parameter \<open>misc\<close>.
\<close>

definition twitch_misc :: "string" where
  "twitch_misc = ''!*(),'' @ [CHR 0x5C]"

definition youtube_misc :: "string" where
  "youtube_misc = ''!*(),''"

definition class_chars :: "string \<Rightarrow> char \<Rightarrow> bool" where
  "class_chars misc c =
     (ascii_alpha c \<or> ascii_digit c
      \<or> (in_range CHR ''$'' CHR ''_'' c \<or> c \<in> set ''@.&+'')
      \<or> c \<in> set misc)"

definition hex_digit :: "char \<Rightarrow> bool" where
  "hex_digit c = (ascii_digit c \<or> in_range CHR ''a'' CHR ''f'' c \<or> in_range CHR ''A'' CHR ''F'' c)"

text \<open>
  The repeated group, greedy and last in the pattern: each iteration takes the first
  alternative that matches, and the repetition stops where none does. The result is the
  text matched by the repetition (empty when not even one iteration matches).
\<close>

fun match_group :: "string \<Rightarrow> string \<Rightarrow> string" where
  "match_group misc [] = []"
| "match_group misc (c # cs) =
     (if class_chars misc c then c # match_group misc cs
      else if c = CHR ''%'' \<and> 2 \<le> length cs \<and> hex_digit (cs ! 0) \<and> hex_digit (cs ! 1)
        then c # take 2 cs @ match_group misc (drop 2 cs)
      else [])"

text \<open>A match of the whole pattern starting at the first character of the text.\<close>

definition match_at :: "string \<Rightarrow> string \<Rightarrow> string option" where
  "match_at misc s =
     (if prefix ''https://'' s then
        (let b = match_group misc (drop 8 s) in if b = [] then None else Some (''https://'' @ b))
      else if prefix ''http://'' s then
        (let b = match_group misc (drop 7 s) in if b = [] then None else Some (''http://'' @ b))
      else None)"

text \<open>
  \<^verbatim>\<open>re.findall\<close>: the non-overlapping matches from left to right; the pattern has no
  capturing group, so each result is the matched text. After a match \<open>m\<close> (never empty)
  the scan resumes behind it: \<open>drop (length m - 1) cs\<close> is \<open>drop (length m) (c # cs)\<close>.
\<close>

fun findall :: "string \<Rightarrow> string \<Rightarrow> string list" where
  "findall misc [] = []"
| "findall misc (c # cs) =
     (case match_at misc (c # cs) of
        None \<Rightarrow> findall misc cs
      | Some m \<Rightarrow> m # findall misc (drop (length m - 1) cs))"

definition twitch_contains_url :: "string \<Rightarrow> string list" where
  "twitch_contains_url text = findall twitch_misc text"

definition youtube_contains_url :: "string \<Rightarrow> string list" where
  "youtube_contains_url text = findall youtube_misc text"

subsection \<open>\<^verbatim>\<open>urlparse(url).netloc\<close>\<close>

text \<open>
  \<^verbatim>\<open>urllib.parse.urlsplit\<close> on a text without white space or control characters (a
  match of the pattern has none): the scheme is split off at the first colon when the
  text before it is a scheme name; if the rest starts with \<^verbatim>\<open>//\<close>, the network location
  runs up to the first of \<^verbatim>\<open>/\<close>, \<^verbatim>\<open>?\<close>, \<^verbatim>\<open>#\<close>. \<open>None\<close> stands for the \<^verbatim>\<open>ValueError\<close> raised
  on unbalanced brackets or on a rejected bracketed host.
\<close>

definition scheme_char :: "char \<Rightarrow> bool" where
  "scheme_char c = (ascii_alpha c \<or> ascii_digit c \<or> c \<in> set ''+-.'')"

definition strip_scheme :: "string \<Rightarrow> string" where
  "strip_scheme url =
     (let pre = takeWhile (\<lambda>c. c \<noteq> CHR '':'') url in
      if length pre < length url \<and> pre \<noteq> [] \<and> ascii_alpha (hd pre) \<and> list_all scheme_char pre
      then drop (length pre + 1) url else url)"

definition urlparse_netloc :: "('a, 'z) pylib_scheme \<Rightarrow> string \<Rightarrow> string option" where
  "urlparse_netloc py url =
     (let rest = strip_scheme url in
      if take 2 rest = ''//'' then
        (let netloc = takeWhile (\<lambda>c. c \<notin> set ''/?#'') (drop 2 rest);
             lb = (CHR ''['' \<in> set netloc);
             rb = (CHR '']'' \<in> set netloc)
         in if (lb \<and> \<not> rb) \<or> (rb \<and> \<not> lb) then None
            else if lb \<and> rb \<and> \<not> check_bracketed_netloc py netloc then None
            else Some netloc)
      else Some [])"

subsection \<open>Configuration\<close>

text \<open>
  The constants both files define. \<open>'t\<close> is the type of clock readings
  (\<^verbatim>\<open>time.time()\<close>) and of \<^verbatim>\<open>COOLDOWN_SECONDS\<close>.
\<close>

record 't settings =
  CHAT_COMMAND :: string
  BLOCK_URLS :: bool
  MODERATORS :: "string list"
  ALLOWED_DOMAINS :: "string list"
  COOLDOWN_SECONDS :: 't

record 't twitch_settings = "'t settings" +
  REQUIRE_BITS :: bool
  MIN_BITS_AMOUNT :: int

record ('t, 'a) youtube_settings = "'t settings" +
  MIN_SUPER_CHAT_AMOUNT :: 'a
  ALLOW_REGULAR_CHAT :: bool

subsection \<open>\<^verbatim>\<open>filter_urls\<close>\<close>

definition url_removed :: string where
  "url_removed = ''[URL REMOVED]''"

text \<open>
  The body of \<^verbatim>\<open>for url in urls\<close>, the same in both files, on the pair
  \<^verbatim>\<open>(filtered_message, filtered)\<close>. The bare \<^verbatim>\<open>except:\<close> does what the branch for a
  domain that is not allowed does.
\<close>

fun filter_loop ::
  "('a, 'z) pylib_scheme \<Rightarrow> ('t, 'm) settings_scheme \<Rightarrow> string list \<Rightarrow> string \<times> bool \<Rightarrow> string \<times> bool"
where
  "filter_loop py cfg [] (filtered_message, filtered) = (filtered_message, filtered)"
| "filter_loop py cfg (url # urls) (filtered_message, filtered) =
     (case urlparse_netloc py url of
        None \<Rightarrow> filter_loop py cfg urls (replace url url_removed filtered_message, True)
      | Some netloc \<Rightarrow>
          (let domain = lower netloc;
               is_allowed = list_ex (\<lambda>allowed. py_in allowed domain) (ALLOWED_DOMAINS cfg)
           in if \<not> is_allowed
              then filter_loop py cfg urls (replace url url_removed filtered_message, True)
              else filter_loop py cfg urls (filtered_message, filtered)))"

text \<open>Twitch: the sender is the author of the command context.\<close>

record twitch_ctx =
  author_name :: string
  author_is_mod :: bool
  author_is_broadcaster :: bool
  message_tags :: "(string \<times> string) list option"

definition twitch_is_moderator :: "('t, 'm) settings_scheme \<Rightarrow> twitch_ctx \<Rightarrow> bool" where
  "twitch_is_moderator cfg ctx =
     (let is_mod = (author_is_mod ctx \<or> author_is_broadcaster ctx)
      in is_mod \<or> author_name ctx \<in> set (MODERATORS cfg))"

definition twitch_filter_urls ::
  "('a, 'z) pylib_scheme \<Rightarrow> ('t, 'm) settings_scheme \<Rightarrow> string \<Rightarrow> twitch_ctx \<Rightarrow> string \<times> bool"
where
  "twitch_filter_urls py cfg message ctx =
     (if \<not> BLOCK_URLS cfg then (message, False)
      else if twitch_is_moderator cfg ctx then (message, False)
      else (let urls = twitch_contains_url message in
            if urls = [] then (message, False)
            else filter_loop py cfg urls (message, False)))"

text \<open>YouTube: the sender is a name and the moderator flag of the chat item.\<close>

definition youtube_is_moderator :: "('t, 'm) settings_scheme \<Rightarrow> string \<Rightarrow> bool \<Rightarrow> bool" where
  "youtube_is_moderator cfg author is_mod_flag = (author \<in> set (MODERATORS cfg) \<or> is_mod_flag)"

definition youtube_filter_urls ::
  "('a, 'z) pylib_scheme \<Rightarrow> ('t, 'm) settings_scheme \<Rightarrow> string \<Rightarrow> string \<Rightarrow> bool \<Rightarrow> string \<times> bool"
where
  "youtube_filter_urls py cfg message author is_mod =
     (if \<not> BLOCK_URLS cfg then (message, False)
      else if youtube_is_moderator cfg author is_mod then (message, False)
      else (let urls = youtube_contains_url message in
            if urls = [] then (message, False)
            else filter_loop py cfg urls (message, False)))"

subsection \<open>Rate limiting\<close>

text \<open>
  \<^verbatim>\<open>user_cooldowns\<close> is a dictionary from author to the clock reading of the last
  accepted command. \<open>now\<close> is what \<^verbatim>\<open>time.time()\<close> returns at the call.
\<close>

definition is_on_cooldown ::
  "('t::{minus,ord}, 'm) settings_scheme \<Rightarrow> 't \<Rightarrow> (string \<rightharpoonup> 't) \<Rightarrow> string \<Rightarrow> bool"
where
  "is_on_cooldown cfg now user_cooldowns author =
     (case user_cooldowns author of
        None \<Rightarrow> False
      | Some t \<Rightarrow> (let elapsed = now - t in if elapsed < COOLDOWN_SECONDS cfg then True else False))"

definition set_cooldown :: "'t \<Rightarrow> (string \<rightharpoonup> 't) \<Rightarrow> string \<Rightarrow> (string \<rightharpoonup> 't)" where
  "set_cooldown now user_cooldowns author = user_cooldowns(author \<mapsto> now)"

subsection \<open>Observable effects\<close>

text \<open>
  A handler's effects, in the order they happen: a line printed on the operator's
  console, a chat message sent with \<^verbatim>\<open>ctx.send\<close> (all of them start with \<^verbatim>\<open>@author\<close>),
  and the HTTP POST of a prompt to the brain. There is one constructor for each
  \<^verbatim>\<open>print\<close> and each \<^verbatim>\<open>ctx.send\<close> of the source; time stamps and the wording are left
  out, the interpolated values are kept where a later statement refers to them.
\<close>

datatype jvalue = JString string | JOther

datatype log =
    Command_queued string
  | Blocked_by_safety "jvalue option"
  | Brain_returned_error int
  | Failed_to_connect string
  | Bits_from string int
  | Chat_from string
  | Super_chat_from string string string
  | Regular_chat_from string string
  | Message_line string
  | Insufficient_bits
  | Amount_too_low
  | On_cooldown
  | Urls_removed
  | Filtered_line string
  | Chaos_activated
  | Failed_to_process
  | Blank

datatype chat =
    Usage
  | Please_cheer
  | Please_wait
  | Urls_filtered
  | Processing
  | Unleashed
  | Failed

datatype effect = Print log | Send string chat | Post string

fun sends :: "effect list \<Rightarrow> (string \<times> chat) list" where
  "sends [] = []"
| "sends (Send a m # es) = (a, m) # sends es"
| "sends (e # es) = sends es"

fun posts :: "effect list \<Rightarrow> string list" where
  "posts [] = []"
| "posts (Post p # es) = p # posts es"
| "posts (e # es) = posts es"

fun prints :: "effect list \<Rightarrow> log list" where
  "prints [] = []"
| "prints (Print l # es) = l # prints es"
| "prints (e # es) = prints es"

subsection \<open>\<^verbatim>\<open>send_to_brain\<close>\<close>

text \<open>
  What the single \<^verbatim>\<open>requests.post\<close> leads to inside the \<^verbatim>\<open>try\<close> block:
  \<^item> \<open>RequestException e\<close>: the call, or \<^verbatim>\<open>response.json()\<close>, raises an exception of that
    class, \<open>e\<close> its text;
  \<^item> \<open>OtherException\<close>: an exception of another class is raised, for instance by
    \<^verbatim>\<open>data.get\<close> when the body is not a JSON object; the \<^verbatim>\<open>except\<close> clause does not
    catch it;
  \<^item> \<open>Response status_code data\<close>: a response with that status code; \<open>data\<close> is the
    dictionary \<^verbatim>\<open>response.json()\<close> returns, read only when the code is 200. \<open>JOther\<close>
    is a JSON value that is not a string.
\<close>

datatype http_result =
    RequestException string
  | OtherException
  | Response int "string \<rightharpoonup> jvalue"

datatype exn = ValueError | OtherError

text \<open>
  The Python result is \<^verbatim>\<open>True\<close>, \<^verbatim>\<open>False\<close> or, where the function ends without a
  \<^verbatim>\<open>return\<close>, \<^verbatim>\<open>None\<close>: \<open>Some True\<close>, \<open>Some False\<close> and \<open>None\<close>. The parameter
  \<^verbatim>\<open>author\<close> is not used by the source; the third parameter only adds the amount to the
  line printed for a queued command.
\<close>

definition send_to_brain :: "http_result \<Rightarrow> string \<Rightarrow> (exn + bool option) \<times> effect list" where
  "send_to_brain reply prompt =
     (case reply of
        RequestException e \<Rightarrow> (Inr (Some False), [Post prompt, Print (Failed_to_connect e)])
      | OtherException \<Rightarrow> (Inl OtherError, [Post prompt])
      | Response status_code data \<Rightarrow>
          if status_code = 200 then
            (if data ''status'' = Some (JString ''queued'')
               then (Inr (Some True), [Post prompt, Print (Command_queued prompt)])
             else if data ''status'' = Some (JString ''ignored'')
               then (Inr (Some False), [Post prompt, Print (Blocked_by_safety (data ''message''))])
             else (Inr None, [Post prompt]))
          else (Inr (Some False), [Post prompt, Print (Brain_returned_error status_code)]))"

text \<open>The truth value of a result in \<^verbatim>\<open>if send_to_brain(...):\<close>.\<close>

fun truthy :: "bool option \<Rightarrow> bool" where
  "truthy None = False"
| "truthy (Some b) = b"

text \<open>
  What the surroundings supply while one event is handled: the clock readings of the
  call in \<^verbatim>\<open>is_on_cooldown\<close> and of the call in \<^verbatim>\<open>set_cooldown\<close>, and the outcome of the
  POST.
\<close>

record 't env =
  now_check :: 't
  now_set :: 't
  reply :: http_result

subsection \<open>Twitch: the \<^verbatim>\<open>chaos\<close> command handler\<close>

text \<open>
  \<^verbatim>\<open>bits = int(ctx.message.tags.get('bits', 0))\<close> when the message has a non-empty
  dictionary of tags, 0 otherwise; \<^verbatim>\<open>int\<close> may raise.
\<close>

definition tag_bits :: "('a, 'z) pylib_scheme \<Rightarrow> twitch_ctx \<Rightarrow> exn + int" where
  "tag_bits py ctx =
     (case message_tags ctx of
        None \<Rightarrow> Inr 0
      | Some tags \<Rightarrow>
          if tags = [] then Inr 0
          else (case map_of tags ''bits'' of
                  None \<Rightarrow> Inr 0
                | Some v \<Rightarrow> (case int_of_str py v of None \<Rightarrow> Inl ValueError | Some n \<Rightarrow> Inr n)))"

text \<open>
  The handler returns the exception that leaves it, if any, the dictionary
  \<^verbatim>\<open>user_cooldowns\<close> afterwards, and its effects. \<open>prompt\<close> is \<open>None\<close> when the command
  was sent without text.
\<close>

definition chaos ::
  "('a, 'z) pylib_scheme \<Rightarrow> ('t::{minus,ord}) twitch_settings \<Rightarrow> 't env \<Rightarrow> twitch_ctx \<Rightarrow> string option
     \<Rightarrow> (string \<rightharpoonup> 't) \<Rightarrow> exn option \<times> (string \<rightharpoonup> 't) \<times> effect list"
where
  "chaos py cfg env ctx prompt user_cooldowns =
     (let author = author_name ctx in
      case prompt of
        None \<Rightarrow> (None, user_cooldowns, [Send author Usage])
      | Some p \<Rightarrow>
        if p = [] then (None, user_cooldowns, [Send author Usage])
        else
        (case tag_bits py ctx of
           Inl e \<Rightarrow> (Some e, user_cooldowns, [])
         | Inr bits \<Rightarrow>
            (let out1 = [Print (if bits > 0 then Bits_from author bits else Chat_from author),
                         Print (Message_line p)]
             in
             if REQUIRE_BITS cfg \<and> bits < MIN_BITS_AMOUNT cfg then
               (None, user_cooldowns, out1 @ [Print Insufficient_bits, Send author Please_cheer])
             else if is_on_cooldown cfg (now_check env) user_cooldowns author then
               (None, user_cooldowns, out1 @ [Print On_cooldown, Send author Please_wait])
             else
               (let (filtered_prompt, was_filtered) = twitch_filter_urls py cfg p ctx;
                    out2 = (if was_filtered
                            then [Print Urls_removed, Print (Filtered_line filtered_prompt),
                                  Send author Urls_filtered]
                            else []) @ [Send author Processing]
                in
                case send_to_brain (reply env) filtered_prompt of
                  (Inl e, out3) \<Rightarrow> (Some e, user_cooldowns, out1 @ out2 @ out3)
                | (Inr r, out3) \<Rightarrow>
                    if truthy r then
                      (None, set_cooldown (now_set env) user_cooldowns author,
                       out1 @ out2 @ out3 @ [Print Chaos_activated, Send author Unleashed, Print Blank])
                    else
                      (None, user_cooldowns,
                       out1 @ out2 @ out3 @ [Print Failed_to_process, Send author Failed, Print Blank])))))"

subsection \<open>YouTube: the polling loop of \<^verbatim>\<open>main\<close>\<close>

text \<open>
  A chat item \<^verbatim>\<open>c\<close>. The attributes read behind \<^verbatim>\<open>hasattr\<close> are optional.
\<close>

record chat_item =
  item_author :: string
  item_message :: string
  item_type :: string
  amountString :: "string option"
  currency :: "string option"
  isChatModerator :: "bool option"

definition format_super_chat_message :: "chat_item \<Rightarrow> string \<times> string" where
  "format_super_chat_message c =
     (let amount = (case amountString c of Some a \<Rightarrow> a | None \<Rightarrow> ''Unknown'');
          cur = (case currency c of Some a \<Rightarrow> a | None \<Rightarrow> [])
      in (amount, cur))"

text \<open>
  \<^verbatim>\<open>float(''.join(filter(lambda x: x.isdigit() or x == '.', amount_str)))\<close> inside
  \<^verbatim>\<open>try\<close>, with \<^verbatim>\<open>amount_value = 0\<close> in the bare \<^verbatim>\<open>except\<close>.
\<close>

definition amount_value :: "('a::zero, 'z) pylib_scheme \<Rightarrow> string \<Rightarrow> 'a" where
  "amount_value py amount_str =
     (case float_of_str py (filter (\<lambda>x. str_isdigit py x \<or> x = CHR ''.'') amount_str) of
        Some v \<Rightarrow> v
      | None \<Rightarrow> 0)"

definition strip :: "('a, 'z) pylib_scheme \<Rightarrow> string \<Rightarrow> string" where
  "strip py s = rev (dropWhile (str_isspace py) (rev (dropWhile (str_isspace py) s)))"

text \<open>
  The part both branches share from \<^verbatim>\<open>filter_urls\<close> on: the result says whether the
  branch goes on to its closing \<^verbatim>\<open>print()\<close> (\<open>True\<close>) or leaves the item with
  \<^verbatim>\<open>continue\<close> (\<open>False\<close>).
\<close>

definition moderate_and_send ::
  "('a, 'z) pylib_scheme \<Rightarrow> ('t::{minus,ord}, 'm) settings_scheme \<Rightarrow> 't env \<Rightarrow> chat_item \<Rightarrow> string
     \<Rightarrow> (string \<rightharpoonup> 't) \<Rightarrow> exn option \<times> (string \<rightharpoonup> 't) \<times> effect list \<times> bool"
where
  "moderate_and_send py cfg env c text user_cooldowns =
     (let author = item_author c;
          is_mod = (case isChatModerator c of Some b \<Rightarrow> b | None \<Rightarrow> False);
          (filtered_message, was_filtered) = youtube_filter_urls py cfg text author is_mod;
          out1 = (if was_filtered then [Print Urls_removed, Print (Filtered_line filtered_message)] else [])
      in
      if is_on_cooldown cfg (now_check env) user_cooldowns author then
        (None, user_cooldowns, out1 @ [Print On_cooldown], False)
      else
        (case send_to_brain (reply env) filtered_message of
           (Inl e, out2) \<Rightarrow> (Some e, user_cooldowns, out1 @ out2, False)
         | (Inr r, out2) \<Rightarrow>
             if truthy r then
               (None, set_cooldown (now_set env) user_cooldowns author,
                out1 @ out2 @ [Print Chaos_activated], True)
             else (None, user_cooldowns, out1 @ out2 @ [Print Failed_to_process], True)))"

text \<open>The body of \<^verbatim>\<open>for c in chat.get().sync_items()\<close>.\<close>

definition process_item ::
  "('a::{zero,ord}, 'z) pylib_scheme \<Rightarrow> ('t::{minus,ord}, 'a) youtube_settings \<Rightarrow> 't env \<Rightarrow> chat_item
     \<Rightarrow> (string \<rightharpoonup> 't) \<Rightarrow> exn option \<times> (string \<rightharpoonup> 't) \<times> effect list"
where
  "process_item py cfg env c user_cooldowns =
     (let author = item_author c; message = item_message c in
      if item_type c = ''superChat'' then
        (let (amount_str, cur) = format_super_chat_message c;
             amount = amount_value py amount_str;
             out0 = [Print (Super_chat_from author amount_str cur), Print (Message_line message)]
         in
         if amount \<ge> MIN_SUPER_CHAT_AMOUNT cfg then
           (case moderate_and_send py cfg env c message user_cooldowns of
              (x, cds, out, finished) \<Rightarrow> (x, cds, out0 @ out @ (if finished then [Print Blank] else [])))
         else (None, user_cooldowns, out0 @ [Print Amount_too_low, Print Blank]))
      else if ALLOW_REGULAR_CHAT cfg \<and> prefix (CHAT_COMMAND cfg) message then
        (let prompt = strip py (drop (length (CHAT_COMMAND cfg)) message) in
         if prompt = [] then (None, user_cooldowns, [])
         else
           (case moderate_and_send py cfg env c prompt user_cooldowns of
              (x, cds, out, finished) \<Rightarrow>
                (x, cds, [Print (Regular_chat_from author prompt)] @ out
                         @ (if finished then [Print Blank] else []))))
      else (None, user_cooldowns, []))"

text \<open>
  The \<^verbatim>\<open>for\<close> loop over one batch of items, each with what its handling meets. An
  exception leaves the loop (and \<^verbatim>\<open>main\<close>, whose handlers end the listener).
\<close>

fun process_items ::
  "('a::{zero,ord}, 'z) pylib_scheme \<Rightarrow> ('t::{minus,ord}, 'a) youtube_settings \<Rightarrow> ('t env \<times> chat_item) list
     \<Rightarrow> (string \<rightharpoonup> 't) \<Rightarrow> exn option \<times> (string \<rightharpoonup> 't) \<times> effect list"
where
  "process_items py cfg [] user_cooldowns = (None, user_cooldowns, [])"
| "process_items py cfg ((env, c) # rest) user_cooldowns =
     (case process_item py cfg env c user_cooldowns of
        (Some e, cds, out) \<Rightarrow> (Some e, cds, out)
      | (None, cds, out) \<Rightarrow>
          (case process_items py cfg rest cds of (x, cds', out') \<Rightarrow> (x, cds', out @ out')))"

subsection \<open>The threshold gate as the specification words it\<close>

text \<open>
  \<open>passes\<close> follows section 4.4 of the specification, not the source: it is what the
  inline checks of the two handlers are compared with.
\<close>

record 'n threshold_policy =
  requirePayment :: bool
  minimumAmount :: 'n

definition passes :: "'n::ord \<Rightarrow> 'n threshold_policy \<Rightarrow> bool" where
  "passes amount policy = (\<not> requirePayment policy \<or> amount \<ge> minimumAmount policy)"

subsection \<open>The host of a URL as the specification words it\<close>

text \<open>
  \<open>spec_host\<close> is not taken from the listeners, which never compute it: it is the host
  the specification speaks of, the part of a network location behind the last \<^verbatim>\<open>@\<close>
  (what precedes it is user information) and before the colon of the port, for a
  location without brackets. It is what the allow list is compared with in the
  statement of claim C6.
\<close>

definition spec_host :: "string \<Rightarrow> string" where
  "spec_host netloc =
     takeWhile (\<lambda>c. c \<noteq> CHR '':'') (rev (takeWhile (\<lambda>c. c \<noteq> CHR ''@'') (rev netloc)))"

subsection \<open>Concrete instances\<close>

text \<open>
  The configurations as the two files are written, and an instance of the library
  record for running the model: ASCII digits and white space, \<^verbatim>\<open>int\<close> on strings of
  ASCII digits, \<^verbatim>\<open>float\<close> on strings of ASCII digits with at most one decimal point
  (the exact decimal value), every balanced bracketed location accepted.
\<close>

definition twitch_defaults :: "rat twitch_settings" where
  "twitch_defaults =
     \<lparr>CHAT_COMMAND = ''!chaos'', BLOCK_URLS = True, MODERATORS = [],
      ALLOWED_DOMAINS = [''i.imgur.com'', ''imgur.com''], COOLDOWN_SECONDS = 5,
      REQUIRE_BITS = False, MIN_BITS_AMOUNT = 100\<rparr>"

definition youtube_defaults :: "(rat, rat) youtube_settings" where
  "youtube_defaults =
     \<lparr>CHAT_COMMAND = ''!chaos'', BLOCK_URLS = True, MODERATORS = [],
      ALLOWED_DOMAINS = [''i.imgur.com'', ''imgur.com''], COOLDOWN_SECONDS = 5,
      MIN_SUPER_CHAT_AMOUNT = 1, ALLOW_REGULAR_CHAT = False\<rparr>"

definition digits_value :: "string \<Rightarrow> nat" where
  "digits_value s = foldl (\<lambda>n c. 10 * n + (of_char c - 48)) 0 s"

definition ascii_int :: "string \<Rightarrow> int option" where
  "ascii_int s = (if s \<noteq> [] \<and> list_all ascii_digit s then Some (int (digits_value s)) else None)"

definition ascii_float :: "string \<Rightarrow> rat option" where
  "ascii_float s =
     (let whole = takeWhile (\<lambda>c. c \<noteq> CHR ''.'') s;
          frac = drop (length whole + 1) s
      in if list_all ascii_digit whole \<and> list_all ascii_digit frac \<and> (whole \<noteq> [] \<or> frac \<noteq> [])
         then Some (of_nat (digits_value whole) + of_nat (digits_value frac) / 10 ^ length frac)
         else None)"

definition py_ascii :: "rat pylib" where
  "py_ascii =
     \<lparr>check_bracketed_netloc = (\<lambda>netloc. True),
      str_isdigit = ascii_digit,
      str_isspace = (\<lambda>c. c \<in> set [CHR 0x20, CHR 0x09, CHR 0x0A, CHR 0x0B, CHR 0x0C, CHR 0x0D]),
      float_of_str = ascii_float,
      int_of_str = ascii_int\<rparr>"

definition viewer :: "string \<Rightarrow> twitch_ctx" where
  "viewer name =
     \<lparr>author_name = name, author_is_mod = False, author_is_broadcaster = False, message_tags = None\<rparr>"

definition super_chat :: "string \<Rightarrow> string \<Rightarrow> string \<Rightarrow> chat_item" where
  "super_chat name amount text =
     \<lparr>item_author = name, item_message = text, item_type = ''superChat'',
      amountString = Some amount, currency = Some ''USD'', isChatModerator = Some False\<rparr>"

definition brain_says :: "http_result \<Rightarrow> rat env" where
  "brain_says r = \<lparr>now_check = 1000, now_set = 1001, reply = r\<rparr>"

section \<open>Properties\<close>

subsection \<open>The two URL patterns match the same texts\<close>

lemma backslash_in_range: "in_range CHR ''$'' CHR ''_'' (CHR 0x5C)"
  by (simp add: in_range_def)

lemma class_chars_misc: "class_chars twitch_misc c = class_chars youtube_misc c"
proof (cases "c = CHR 0x5C")
  case True
  then show ?thesis using backslash_in_range by (simp add: class_chars_def)
next
  case False
  then show ?thesis by (simp add: class_chars_def twitch_misc_def youtube_misc_def)
qed

lemma match_group_misc: "match_group twitch_misc s = match_group youtube_misc s"
proof (induction s rule: length_induct)
  case (1 s)
  show ?case
  proof (cases s)
    case Nil
    then show ?thesis by simp
  next
    case (Cons c cs)
    have a: "match_group twitch_misc cs = match_group youtube_misc cs"
      using 1 Cons by simp
    have b: "match_group twitch_misc (drop 2 cs) = match_group youtube_misc (drop 2 cs)"
      using 1 Cons by simp
    show ?thesis unfolding Cons match_group.simps class_chars_misc a b ..
  qed
qed

lemma match_at_misc: "match_at twitch_misc s = match_at youtube_misc s"
  by (simp add: match_at_def match_group_misc)

lemma findall_misc: "findall twitch_misc s = findall youtube_misc s"
proof (induction s rule: length_induct)
  case (1 s)
  show ?case
  proof (cases s)
    case Nil
    then show ?thesis by simp
  next
    case (Cons c cs)
    have a: "findall twitch_misc (drop n cs) = findall youtube_misc (drop n cs)" for n
      using 1 Cons by simp
    from a [of 0] have a0: "findall twitch_misc cs = findall youtube_misc cs" by simp
    show ?thesis unfolding Cons findall.simps match_at_misc a a0 ..
  qed
qed

lemma contains_url_same: "twitch_contains_url text = youtube_contains_url text"
  by (simp add: twitch_contains_url_def youtube_contains_url_def findall_misc)

lemma py_in_sublist: "py_in a b = sublist a b"
  by (induction b) (simp_all add: sublist_Cons_right)

lemmas url_eval = match_at_def class_chars_def twitch_misc_def youtube_misc_def ascii_alpha_def
  ascii_digit_def hex_digit_def in_range_def urlparse_netloc_def strip_scheme_def scheme_char_def
  lower_def lower_char_def url_removed_def twitch_contains_url_def youtube_contains_url_def

subsection \<open>Moderation filter: who is exempt\<close>

text \<open>
  Claim C7. If URL blocking is switched off, or the sender is a moderator (by the
  platform's role flags or by the configured list of names), \<^verbatim>\<open>filter_urls\<close> returns
  the text as it is, with the flag \<^verbatim>\<open>False\<close>, whatever URLs the text contains. This
  holds in both listeners.
\<close>

theorem filter_urls_exempt:
  "(\<not> BLOCK_URLS cfg \<or> author_is_mod ctx \<or> author_is_broadcaster ctx
      \<or> author_name ctx \<in> set (MODERATORS cfg)
      \<longrightarrow> twitch_filter_urls py cfg message ctx = (message, False))
   \<and> (\<not> BLOCK_URLS cfg' \<or> is_mod \<or> author \<in> set (MODERATORS cfg')
      \<longrightarrow> youtube_filter_urls py' cfg' message' author is_mod = (message', False))"
  by (simp add: twitch_filter_urls_def twitch_is_moderator_def youtube_filter_urls_def
      youtube_is_moderator_def)

theorem filter_urls_exempt_witness:
  "author_is_broadcaster ((viewer ''Streamer'')\<lparr>author_is_broadcaster := True\<rparr>)
   \<and> twitch_contains_url ''look http://evil.com/x'' = [''http://evil.com/x'']
   \<and> twitch_filter_urls py_ascii twitch_defaults ''look http://evil.com/x''
        ((viewer ''Streamer'')\<lparr>author_is_broadcaster := True\<rparr>) = (''look http://evil.com/x'', False)
   \<and> ''Helper'' \<in> set (MODERATORS (youtube_defaults\<lparr>MODERATORS := [''Helper'']\<rparr>))
   \<and> youtube_filter_urls py_ascii (youtube_defaults\<lparr>MODERATORS := [''Helper'']\<rparr>)
        ''look http://evil.com/x'' ''Helper'' False = (''look http://evil.com/x'', False)"
proof -
  have a: "author_is_broadcaster ((viewer ''Streamer'')\<lparr>author_is_broadcaster := True\<rparr>)"
    by simp
  have b: "''Helper'' \<in> set (MODERATORS (youtube_defaults\<lparr>MODERATORS := [''Helper'']\<rparr>))"
    by simp
  have c: "twitch_contains_url ''look http://evil.com/x'' = [''http://evil.com/x'']"
    by (simp add: url_eval)
  from a b c
    filter_urls_exempt [of twitch_defaults "(viewer ''Streamer'')\<lparr>author_is_broadcaster := True\<rparr>"
      py_ascii "''look http://evil.com/x''" "youtube_defaults\<lparr>MODERATORS := [''Helper'']\<rparr>" False
      "''Helper''" py_ascii "''look http://evil.com/x''"]
  show ?thesis by blast
qed

subsection \<open>Moderation filter: the allow list\<close>

lemma filter_loop_step:
  "urlparse_netloc py url = Some netloc \<Longrightarrow>
   filter_loop py cfg (url # urls) (msg, flag) =
     filter_loop py cfg urls
       (if (\<exists>allowed \<in> set (ALLOWED_DOMAINS cfg). sublist allowed (lower netloc))
        then (msg, flag) else (replace url url_removed msg, True))"
  by (simp add: py_in_sublist list_ex_iff)

lemma lookalike_hosts:
  "urlparse_netloc py ''http://notimgur.com'' = Some ''notimgur.com''"
  "urlparse_netloc py ''http://imgur.com.attacker.net'' = Some ''imgur.com.attacker.net''"
  "twitch_contains_url ''http://notimgur.com'' = [''http://notimgur.com'']"
  "twitch_contains_url ''http://imgur.com.attacker.net'' = [''http://imgur.com.attacker.net'']"
  "youtube_contains_url ''http://notimgur.com'' = [''http://notimgur.com'']"
  "youtube_contains_url ''http://imgur.com.attacker.net'' = [''http://imgur.com.attacker.net'']"
  "lower ''notimgur.com'' = ''notimgur.com''"
  "lower ''imgur.com.attacker.net'' = ''imgur.com.attacker.net''"
  by (simp_all add: url_eval)

text \<open>
  What the loop of \<^verbatim>\<open>filter_urls\<close> compares with the allow list is the whole network
  location: a URL whose location parses is left alone exactly when some entry of
  \<^verbatim>\<open>ALLOWED_DOMAINS\<close> is a substring of the lower-cased location, and is replaced by
  the marker otherwise. With the single entry \<^verbatim>\<open>imgur.com\<close>, the URLs with host
  \<^verbatim>\<open>notimgur.com\<close> and \<^verbatim>\<open>imgur.com.attacker.net\<close> pass both listeners' filters
  unredacted.
\<close>

lemma netloc_allowed_is_substring:
  "(urlparse_netloc py url = Some netloc \<longrightarrow>
      filter_loop py cfg (url # urls) (msg, flag) =
        filter_loop py cfg urls
          (if (\<exists>allowed \<in> set (ALLOWED_DOMAINS cfg). sublist allowed (lower netloc))
           then (msg, flag) else (replace url url_removed msg, True)))
   \<and> twitch_filter_urls py (tw\<lparr>BLOCK_URLS := True, MODERATORS := [], ALLOWED_DOMAINS := [''imgur.com'']\<rparr>)
        ''http://notimgur.com'' (viewer a) = (''http://notimgur.com'', False)
   \<and> twitch_filter_urls py (tw\<lparr>BLOCK_URLS := True, MODERATORS := [], ALLOWED_DOMAINS := [''imgur.com'']\<rparr>)
        ''http://imgur.com.attacker.net'' (viewer a) = (''http://imgur.com.attacker.net'', False)
   \<and> youtube_filter_urls py (yt\<lparr>BLOCK_URLS := True, MODERATORS := [], ALLOWED_DOMAINS := [''imgur.com'']\<rparr>)
        ''http://notimgur.com'' a False = (''http://notimgur.com'', False)
   \<and> youtube_filter_urls py (yt\<lparr>BLOCK_URLS := True, MODERATORS := [], ALLOWED_DOMAINS := [''imgur.com'']\<rparr>)
        ''http://imgur.com.attacker.net'' a False = (''http://imgur.com.attacker.net'', False)"
proof (intro conjI impI)
  assume "urlparse_netloc py url = Some netloc"
  then show "filter_loop py cfg (url # urls) (msg, flag) =
        filter_loop py cfg urls
          (if (\<exists>allowed \<in> set (ALLOWED_DOMAINS cfg). sublist allowed (lower netloc))
           then (msg, flag) else (replace url url_removed msg, True))"
    by (rule filter_loop_step)
qed (simp_all add: twitch_filter_urls_def twitch_is_moderator_def youtube_filter_urls_def
      youtube_is_moderator_def viewer_def lookalike_hosts)

lemma netloc_allowed_examples:
  "urlparse_netloc py_ascii ''http://evil.com/a'' = Some ''evil.com''
   \<and> filter_loop py_ascii twitch_defaults [''http://evil.com/a''] (''go http://evil.com/a now'', False)
       = (''go [URL REMOVED] now'', True)
   \<and> urlparse_netloc py_ascii ''https://I.Imgur.com/a.png'' = Some ''I.Imgur.com''
   \<and> filter_loop py_ascii twitch_defaults [''https://I.Imgur.com/a.png'']
         (''go https://I.Imgur.com/a.png'', False)
       = (''go https://I.Imgur.com/a.png'', False)"
proof -
  have a: "urlparse_netloc py_ascii ''http://evil.com/a'' = Some ''evil.com''"
    by (simp add: url_eval)
  have b: "urlparse_netloc py_ascii ''https://I.Imgur.com/a.png'' = Some ''I.Imgur.com''"
    by (simp add: url_eval)
  have c: "\<not> (\<exists>allowed \<in> set (ALLOWED_DOMAINS twitch_defaults). sublist allowed (lower ''evil.com''))"
    by (simp add: twitch_defaults_def py_in_sublist [symmetric] lower_def lower_char_def in_range_def)
  have d: "\<exists>allowed \<in> set (ALLOWED_DOMAINS twitch_defaults). sublist allowed (lower ''I.Imgur.com'')"
    by (simp add: twitch_defaults_def py_in_sublist [symmetric] lower_def lower_char_def in_range_def)
  have e: "replace ''http://evil.com/a'' url_removed ''go http://evil.com/a now'' = ''go [URL REMOVED] now''"
    by (simp add: url_removed_def)
  have f: "filter_loop py_ascii twitch_defaults [''http://evil.com/a''] (''go http://evil.com/a now'', False)
       = (''go [URL REMOVED] now'', True)"
    unfolding netloc_allowed_is_substring [THEN conjunct1, rule_format, OF a]
    by (simp only: c e if_False filter_loop.simps)
  have g: "filter_loop py_ascii twitch_defaults [''https://I.Imgur.com/a.png'']
         (''go https://I.Imgur.com/a.png'', False)
       = (''go https://I.Imgur.com/a.png'', False)"
    unfolding netloc_allowed_is_substring [THEN conjunct1, rule_format, OF b]
    by (simp only: d if_True filter_loop.simps)
  from a b f g show ?thesis by blast
qed

subsection \<open>Moderation filter: what is left of a removed URL\<close>

lemma filter_loop_flag_stays: "snd (filter_loop py cfg urls (m, True)) = True"
  by (induction urls arbitrary: m) (simp_all split: option.splits)

text \<open>The flag is raised as soon as one of the matches is not allowed.\<close>

lemma filter_loop_raises_flag:
  "\<exists>url \<in> set urls. (case urlparse_netloc py url of None \<Rightarrow> True
       | Some netloc \<Rightarrow> \<not> list_ex (\<lambda>allowed. py_in allowed (lower netloc)) (ALLOWED_DOMAINS cfg))
   \<Longrightarrow> snd (filter_loop py cfg urls (m, f)) = True"
proof (induction urls arbitrary: m f)
  case Nil
  then show ?case by simp
next
  case (Cons url urls)
  show ?case
  proof (cases "case urlparse_netloc py url of None \<Rightarrow> True
       | Some netloc \<Rightarrow> \<not> list_ex (\<lambda>allowed. py_in allowed (lower netloc)) (ALLOWED_DOMAINS cfg)")
    case True
    then show ?thesis by (simp add: filter_loop_flag_stays split: option.splits)
  next
    case False
    with Cons.prems have "\<exists>url \<in> set urls. (case urlparse_netloc py url of None \<Rightarrow> True
       | Some netloc \<Rightarrow> \<not> list_ex (\<lambda>allowed. py_in allowed (lower netloc)) (ALLOWED_DOMAINS cfg))"
      by auto
    from Cons.IH [OF this] False show ?thesis by (simp split: option.splits)
  qed
qed

text \<open>A text all of whose matches are allowed comes back unchanged.\<close>

lemma filter_loop_all_allowed:
  "\<forall>url \<in> set urls. \<exists>netloc. urlparse_netloc py url = Some netloc
       \<and> list_ex (\<lambda>allowed. py_in allowed (lower netloc)) (ALLOWED_DOMAINS cfg)
   \<Longrightarrow> filter_loop py cfg urls (m, f) = (m, f)"
  by (induction urls) auto

lemma defaults_fields:
  "BLOCK_URLS twitch_defaults" "MODERATORS twitch_defaults = []"
  "ALLOWED_DOMAINS twitch_defaults = [''i.imgur.com'', ''imgur.com'']"
  "BLOCK_URLS youtube_defaults" "MODERATORS youtube_defaults = []"
  "ALLOWED_DOMAINS youtube_defaults = [''i.imgur.com'', ''imgur.com'']"
  by (simp_all add: twitch_defaults_def youtube_defaults_def)

text \<open>
  Claim C6 asks that a URL is left alone exactly when some entry of the allow list is
  a substring of its lower-cased host. The source comments the check with
  \<^verbatim>\<open>Check if domain is whitelisted\<close> and calls the compared text \<^verbatim>\<open>domain\<close>, but that
  text is \<^verbatim>\<open>parsed.netloc\<close>, which also holds user information and the port. Here the
  host is \<^verbatim>\<open>evil.com\<close>, no entry of the allow list is a substring of it, and the URL
  passes both filters unredacted, because the user information is \<^verbatim>\<open>imgur.com\<close>.
\<close>

theorem user_info_counts_as_domain:
  "twitch_contains_url ''https://imgur.com@evil.com/x'' = [''https://imgur.com@evil.com/x'']
   \<and> urlparse_netloc py ''https://imgur.com@evil.com/x'' = Some ''imgur.com@evil.com''
   \<and> lower (spec_host ''imgur.com@evil.com'') = ''evil.com''
   \<and> \<not> list_ex (\<lambda>allowed. py_in allowed (lower (spec_host ''imgur.com@evil.com'')))
         (ALLOWED_DOMAINS twitch_defaults)
   \<and> \<not> list_ex (\<lambda>allowed. py_in allowed (lower (spec_host ''imgur.com@evil.com'')))
         (ALLOWED_DOMAINS youtube_defaults)
   \<and> twitch_filter_urls py twitch_defaults ''https://imgur.com@evil.com/x'' (viewer ''X'')
       = (''https://imgur.com@evil.com/x'', False)
   \<and> youtube_filter_urls py youtube_defaults ''https://imgur.com@evil.com/x'' ''X'' False
       = (''https://imgur.com@evil.com/x'', False)"
proof -
  have u: "twitch_contains_url ''https://imgur.com@evil.com/x'' = [''https://imgur.com@evil.com/x'']"
    by (simp add: url_eval)
  have n: "urlparse_netloc py ''https://imgur.com@evil.com/x'' = Some ''imgur.com@evil.com''"
    by (simp add: url_eval)
  have h: "lower (spec_host ''imgur.com@evil.com'') = ''evil.com''"
    by (simp add: spec_host_def lower_def lower_char_def in_range_def)
  have a: "\<not> list_ex (\<lambda>allowed. py_in allowed ''evil.com'') [''i.imgur.com'', ''imgur.com'']"
    by simp
  have l: "filter_loop py cfg [''https://imgur.com@evil.com/x''] (''https://imgur.com@evil.com/x'', False)
       = (''https://imgur.com@evil.com/x'', False)"
    if "ALLOWED_DOMAINS cfg = [''i.imgur.com'', ''imgur.com'']" for cfg :: "('t, 'm) settings_scheme"
    using that by (simp add: n lower_def lower_char_def in_range_def)
  have t: "twitch_filter_urls py twitch_defaults ''https://imgur.com@evil.com/x'' (viewer ''X'')
       = (''https://imgur.com@evil.com/x'', False)"
    by (simp add: twitch_filter_urls_def twitch_is_moderator_def viewer_def u l defaults_fields
        del: filter_loop.simps)
  have y: "youtube_filter_urls py youtube_defaults ''https://imgur.com@evil.com/x'' ''X'' False
       = (''https://imgur.com@evil.com/x'', False)"
    by (simp add: youtube_filter_urls_def youtube_is_moderator_def u [unfolded contains_url_same] l
        defaults_fields del: filter_loop.simps)
  from u n h a t y show ?thesis by (simp add: defaults_fields)
qed

text \<open>
  Claim C1 asks that the output of the filter contains no occurrence of a URL that was
  not allowed. The source replaces each match with \<^verbatim>\<open>str.replace\<close>, which also rewrites
  occurrences of the match inside a longer match; the text in front of such an inner
  occurrence then stands directly before the marker, whose first characters
  \<^verbatim>\<open>[URL\<close> are characters of the URL pattern. Here the match \<^verbatim>\<open>http://x/[\<close> (host
  \<^verbatim>\<open>x\<close>, not allowed) is found and replaced, the flag is raised, and the output
  contains \<^verbatim>\<open>http://x/[\<close> again.
\<close>

theorem removed_url_reappears:
  "twitch_contains_url ''http://x/[ http://x/http://x/['' = [''http://x/['', ''http://x/http://x/['']
   \<and> urlparse_netloc py ''http://x/['' = Some ''x''
   \<and> twitch_filter_urls py twitch_defaults ''http://x/[ http://x/http://x/['' (viewer ''X'')
       = (''[URL REMOVED] http://x/[URL REMOVED]'', True)
   \<and> youtube_filter_urls py youtube_defaults ''http://x/[ http://x/http://x/['' ''X'' False
       = (''[URL REMOVED] http://x/[URL REMOVED]'', True)
   \<and> py_in ''http://x/['' ''[URL REMOVED] http://x/[URL REMOVED]''"
proof -
  have u: "twitch_contains_url ''http://x/[ http://x/http://x/['' = [''http://x/['', ''http://x/http://x/['']"
    by (simp add: url_eval)
  have n: "urlparse_netloc py ''http://x/['' = Some ''x''"
    "urlparse_netloc py ''http://x/http://x/['' = Some ''x''"
    by (simp_all add: url_eval)
  have l: "filter_loop py cfg [''http://x/['', ''http://x/http://x/['']
       (''http://x/[ http://x/http://x/['', False) = (''[URL REMOVED] http://x/[URL REMOVED]'', True)"
    if "ALLOWED_DOMAINS cfg = [''i.imgur.com'', ''imgur.com'']" for cfg :: "('t, 'm) settings_scheme"
    using that by (simp add: n lower_def lower_char_def in_range_def url_removed_def)
  have t: "twitch_filter_urls py twitch_defaults ''http://x/[ http://x/http://x/['' (viewer ''X'')
       = (''[URL REMOVED] http://x/[URL REMOVED]'', True)"
    by (simp add: twitch_filter_urls_def twitch_is_moderator_def viewer_def u l defaults_fields
        del: filter_loop.simps)
  have y: "youtube_filter_urls py youtube_defaults ''http://x/[ http://x/http://x/['' ''X'' False
       = (''[URL REMOVED] http://x/[URL REMOVED]'', True)"
    by (simp add: youtube_filter_urls_def youtube_is_moderator_def u [unfolded contains_url_same] l
        defaults_fields del: filter_loop.simps)
  have p: "py_in ''http://x/['' ''[URL REMOVED] http://x/[URL REMOVED]''"
    by simp
  from u n(1) t y p show ?thesis by blast
qed

text \<open>
  Claim C9 asks that filtering the output of the filter changes nothing and reports
  \<^verbatim>\<open>False\<close>. For the same reason as above the output can contain a new match that is
  not allowed: here the first pass leaves \<^verbatim>\<open>http://x/\<close> in front of a marker, and the
  second pass finds the match \<^verbatim>\<open>http://x/[URL\<close>, replaces it and reports \<^verbatim>\<open>True\<close>.
\<close>

theorem filter_twice_differs:
  "twitch_filter_urls py twitch_defaults ''http://x/y http://x/http://x/y'' (viewer ''X'')
       = (''[URL REMOVED] http://x/[URL REMOVED]'', True)
   \<and> twitch_filter_urls py twitch_defaults ''[URL REMOVED] http://x/[URL REMOVED]'' (viewer ''X'')
       = (''[URL REMOVED] [URL REMOVED] REMOVED]'', True)
   \<and> youtube_filter_urls py youtube_defaults ''http://x/y http://x/http://x/y'' ''X'' False
       = (''[URL REMOVED] http://x/[URL REMOVED]'', True)
   \<and> youtube_filter_urls py youtube_defaults ''[URL REMOVED] http://x/[URL REMOVED]'' ''X'' False
       = (''[URL REMOVED] [URL REMOVED] REMOVED]'', True)"
proof -
  have u1: "twitch_contains_url ''http://x/y http://x/http://x/y'' = [''http://x/y'', ''http://x/http://x/y'']"
    by (simp add: url_eval)
  have u2: "twitch_contains_url ''[URL REMOVED] http://x/[URL REMOVED]'' = [''http://x/[URL'']"
    by (simp add: url_eval)
  have n: "urlparse_netloc py ''http://x/y'' = Some ''x''"
    "urlparse_netloc py ''http://x/http://x/y'' = Some ''x''"
    "urlparse_netloc py ''http://x/[URL'' = Some ''x''"
    by (simp_all add: url_eval)
  have l1: "filter_loop py cfg [''http://x/y'', ''http://x/http://x/y'']
       (''http://x/y http://x/http://x/y'', False) = (''[URL REMOVED] http://x/[URL REMOVED]'', True)"
    if "ALLOWED_DOMAINS cfg = [''i.imgur.com'', ''imgur.com'']" for cfg :: "('t, 'm) settings_scheme"
    using that by (simp add: n lower_def lower_char_def in_range_def url_removed_def)
  have l2: "filter_loop py cfg [''http://x/[URL'']
       (''[URL REMOVED] http://x/[URL REMOVED]'', False) = (''[URL REMOVED] [URL REMOVED] REMOVED]'', True)"
    if "ALLOWED_DOMAINS cfg = [''i.imgur.com'', ''imgur.com'']" for cfg :: "('t, 'm) settings_scheme"
    using that by (simp add: n lower_def lower_char_def in_range_def url_removed_def)
  have t1: "twitch_filter_urls py twitch_defaults ''http://x/y http://x/http://x/y'' (viewer ''X'')
       = (''[URL REMOVED] http://x/[URL REMOVED]'', True)"
    by (simp add: twitch_filter_urls_def twitch_is_moderator_def viewer_def u1 l1 defaults_fields
        del: filter_loop.simps)
  have t2: "twitch_filter_urls py twitch_defaults ''[URL REMOVED] http://x/[URL REMOVED]'' (viewer ''X'')
       = (''[URL REMOVED] [URL REMOVED] REMOVED]'', True)"
    by (simp add: twitch_filter_urls_def twitch_is_moderator_def viewer_def u2 l2 defaults_fields
        del: filter_loop.simps)
  have y1: "youtube_filter_urls py youtube_defaults ''http://x/y http://x/http://x/y'' ''X'' False
       = (''[URL REMOVED] http://x/[URL REMOVED]'', True)"
    by (simp add: youtube_filter_urls_def youtube_is_moderator_def u1 [unfolded contains_url_same] l1
        defaults_fields del: filter_loop.simps)
  have y2: "youtube_filter_urls py youtube_defaults ''[URL REMOVED] http://x/[URL REMOVED]'' ''X'' False
       = (''[URL REMOVED] [URL REMOVED] REMOVED]'', True)"
    by (simp add: youtube_filter_urls_def youtube_is_moderator_def u2 [unfolded contains_url_same] l2
        defaults_fields del: filter_loop.simps)
  from t1 t2 y1 y2 show ?thesis by blast
qed

subsection \<open>Dispatch and cooldown\<close>

lemma truthy_iff: "truthy r \<longleftrightarrow> r = Some True"
  by (cases r) auto

lemma send_to_brain_result:
  "fst (send_to_brain r q) =
     (case r of
        RequestException e \<Rightarrow> Inr (Some False)
      | OtherException \<Rightarrow> Inl OtherError
      | Response status_code data \<Rightarrow>
          if status_code = 200 \<and> data ''status'' = Some (JString ''queued'') then Inr (Some True)
          else if status_code = 200 \<and> data ''status'' = Some (JString ''ignored'') then Inr (Some False)
          else if status_code = 200 then Inr None
          else Inr (Some False))"
  by (simp add: send_to_brain_def split: http_result.splits)

lemma send_to_brain_True_iff:
  "fst (send_to_brain r q) = Inr (Some True) \<longleftrightarrow>
   (\<exists>d. r = Response 200 d \<and> d ''status'' = Some (JString ''queued''))"
  by (cases r) (auto simp: send_to_brain_def)

lemma send_to_brain_posts: "posts (snd (send_to_brain r q)) = [q]"
  by (simp add: send_to_brain_def split: http_result.splits)

lemma send_to_brain_sends: "sends (snd (send_to_brain r q)) = []"
  by (simp add: send_to_brain_def split: http_result.splits)

lemma sends_append: "sends (xs @ ys) = sends xs @ sends ys"
  by (induction xs rule: sends.induct) simp_all

lemma posts_append: "posts (xs @ ys) = posts xs @ posts ys"
  by (induction xs rule: posts.induct) simp_all

lemma prints_append: "prints (xs @ ys) = prints xs @ prints ys"
  by (induction xs rule: prints.induct) simp_all



lemma chaos_cooldowns:
 "fst (snd (chaos py cfg env ctx prompt cds)) =
   (if (\<exists>p bits. prompt = Some p \<and> p \<noteq> [] \<and> tag_bits py ctx = Inr bits
          \<and> \<not> (REQUIRE_BITS cfg \<and> bits < MIN_BITS_AMOUNT cfg))
        \<and> \<not> is_on_cooldown cfg (now_check env) cds (author_name ctx)
        \<and> (\<exists>d. reply env = Response 200 d \<and> d ''status'' = Some (JString ''queued''))
    then cds(author_name ctx \<mapsto> now_set env) else cds)"
proof -
  define ok where "ok = (\<exists>d. reply env = Response 200 d \<and> d ''status'' = Some (JString ''queued''))"
  have iff: "(fst (send_to_brain (reply env) q) = Inr (Some True)) = ok" for q
    unfolding ok_def by (rule send_to_brain_True_iff)
  have "fst (snd (chaos py cfg env ctx prompt cds)) =
   (if (\<exists>p bits. prompt = Some p \<and> p \<noteq> [] \<and> tag_bits py ctx = Inr bits
          \<and> \<not> (REQUIRE_BITS cfg \<and> bits < MIN_BITS_AMOUNT cfg))
        \<and> \<not> is_on_cooldown cfg (now_check env) cds (author_name ctx) \<and> ok
    then cds(author_name ctx \<mapsto> now_set env) else cds)"
  proof (cases prompt)
    case None
    then show ?thesis by (simp add: chaos_def)
  next
    case (Some p)
    show ?thesis
    proof (cases "tag_bits py ctx")
      case (Inl e)
      then show ?thesis using Some by (simp add: chaos_def Let_def)
    next
      case (Inr bits)
      obtain q wf where f: "twitch_filter_urls py cfg p ctx = (q, wf)"
        by (cases "twitch_filter_urls py cfg p ctx")
      obtain res out where s: "send_to_brain (reply env) q = (res, out)"
        by (cases "send_to_brain (reply env) q")
      from s iff [of q] have t: "(res = Inr (Some True)) = ok" by simp
      show ?thesis
      proof (cases res)
        case (Inl x)
        with t have "\<not> ok" by simp
        then show ?thesis using Inl Some Inr f s by (simp add: chaos_def Let_def)
      next
        case r: (Inr r)
        with t have "truthy r = ok" by (simp add: truthy_iff)
        then show ?thesis using r Some Inr f s
          by (simp add: chaos_def Let_def set_cooldown_def)
      qed
    qed
  qed
  then show ?thesis unfolding ok_def .
qed

lemma moderate_and_send_cooldowns:
  "fst (snd (moderate_and_send py cfg env c t cds)) =
     (if \<not> is_on_cooldown cfg (now_check env) cds (item_author c)
         \<and> (\<exists>d. reply env = Response 200 d \<and> d ''status'' = Some (JString ''queued''))
      then cds(item_author c \<mapsto> now_set env) else cds)"
proof -
  define ok where "ok = (\<exists>d. reply env = Response 200 d \<and> d ''status'' = Some (JString ''queued''))"
  have iff: "(fst (send_to_brain (reply env) q) = Inr (Some True)) = ok" for q
    unfolding ok_def by (rule send_to_brain_True_iff)
  obtain q wf where f: "youtube_filter_urls py cfg t (item_author c)
      (case isChatModerator c of Some b \<Rightarrow> b | None \<Rightarrow> False) = (q, wf)"
    by (cases "youtube_filter_urls py cfg t (item_author c)
      (case isChatModerator c of Some b \<Rightarrow> b | None \<Rightarrow> False)")
  obtain res out where s: "send_to_brain (reply env) q = (res, out)"
    by (cases "send_to_brain (reply env) q")
  from s iff [of q] have t: "(res = Inr (Some True)) = ok" by simp
  have "fst (snd (moderate_and_send py cfg env c t cds)) =
     (if \<not> is_on_cooldown cfg (now_check env) cds (item_author c) \<and> ok
      then cds(item_author c \<mapsto> now_set env) else cds)"
  proof (cases res)
    case (Inl x)
    with t have "\<not> ok" by simp
    then show ?thesis using Inl f s by (simp add: moderate_and_send_def Let_def)
  next
    case r: (Inr r)
    with t have "truthy r = ok" by (simp add: truthy_iff)
    then show ?thesis using r f s
      by (simp add: moderate_and_send_def Let_def set_cooldown_def)
  qed
  then show ?thesis unfolding ok_def .
qed

lemma process_item_cooldowns:
  "fst (snd (process_item py cfg env c cds)) =
     (if ((item_type c = ''superChat''
            \<and> amount_value py (fst (format_super_chat_message c)) \<ge> MIN_SUPER_CHAT_AMOUNT cfg)
          \<or> (item_type c \<noteq> ''superChat'' \<and> ALLOW_REGULAR_CHAT cfg
              \<and> prefix (CHAT_COMMAND cfg) (item_message c)
              \<and> strip py (drop (length (CHAT_COMMAND cfg)) (item_message c)) \<noteq> []))
         \<and> \<not> is_on_cooldown cfg (now_check env) cds (item_author c)
         \<and> (\<exists>d. reply env = Response 200 d \<and> d ''status'' = Some (JString ''queued''))
      then cds(item_author c \<mapsto> now_set env) else cds)"
proof -
  define ok where "ok = (\<exists>d. reply env = Response 200 d \<and> d ''status'' = Some (JString ''queued''))"
  have m0: "fst (snd (case M of (x, cds', out, finished) \<Rightarrow> (x, cds', g out finished))) = fst (snd M)"
    for M :: "exn option \<times> (string \<rightharpoonup> 'a) \<times> effect list \<times> bool"
      and g :: "effect list \<Rightarrow> bool \<Rightarrow> effect list"
    by (cases M) simp
  have mc: "fst (snd (moderate_and_send py cfg env c t cds)) =
              (if \<not> is_on_cooldown cfg (now_check env) cds (item_author c) \<and> ok
               then cds(item_author c \<mapsto> now_set env) else cds)" for t
    unfolding ok_def by (rule moderate_and_send_cooldowns)
  have "fst (snd (process_item py cfg env c cds)) =
     (if ((item_type c = ''superChat''
            \<and> amount_value py (fst (format_super_chat_message c)) \<ge> MIN_SUPER_CHAT_AMOUNT cfg)
          \<or> (item_type c \<noteq> ''superChat'' \<and> ALLOW_REGULAR_CHAT cfg
              \<and> prefix (CHAT_COMMAND cfg) (item_message c)
              \<and> strip py (drop (length (CHAT_COMMAND cfg)) (item_message c)) \<noteq> []))
         \<and> \<not> is_on_cooldown cfg (now_check env) cds (item_author c) \<and> ok
      then cds(item_author c \<mapsto> now_set env) else cds)"
    by (simp add: process_item_def Let_def m0 mc split: prod.splits)
  then show ?thesis unfolding ok_def .
qed


lemmas run_simps = viewer_def super_chat_def brain_says_def twitch_defaults_def youtube_defaults_def
  py_ascii_def tag_bits_def is_on_cooldown_def format_super_chat_message_def amount_value_def
  ascii_float_def ascii_int_def digits_value_def ascii_digit_def in_range_def strip_def

text \<open>
  Claim C2. In both listeners the dictionary \<^verbatim>\<open>user_cooldowns\<close> after handling an event
  differs from the one before only by the entry of the author, and only when the
  command passed every check (a prompt is present, the threshold, the cooldown) and
  the brain answered 200 with status \<^verbatim>\<open>queued\<close>. On every other path, among them an
  amount below the threshold, an active cooldown, a command ignored by the brain, a
  brain that cannot be reached and an error status, the dictionary is unchanged.
\<close>

theorem cooldown_only_on_success:
  "fst (snd (chaos py cfg env ctx prompt cds)) =
     (if (\<exists>p bits. prompt = Some p \<and> p \<noteq> [] \<and> tag_bits py ctx = Inr bits
            \<and> \<not> (REQUIRE_BITS cfg \<and> bits < MIN_BITS_AMOUNT cfg))
          \<and> \<not> is_on_cooldown cfg (now_check env) cds (author_name ctx)
          \<and> (\<exists>d. reply env = Response 200 d \<and> d ''status'' = Some (JString ''queued''))
      then cds(author_name ctx \<mapsto> now_set env) else cds)
   \<and> fst (snd (process_item py' cfg' env' c cds')) =
     (if ((item_type c = ''superChat''
            \<and> amount_value py' (fst (format_super_chat_message c)) \<ge> MIN_SUPER_CHAT_AMOUNT cfg')
          \<or> (item_type c \<noteq> ''superChat'' \<and> ALLOW_REGULAR_CHAT cfg'
              \<and> prefix (CHAT_COMMAND cfg') (item_message c)
              \<and> strip py' (drop (length (CHAT_COMMAND cfg')) (item_message c)) \<noteq> []))
         \<and> \<not> is_on_cooldown cfg' (now_check env') cds' (item_author c)
         \<and> (\<exists>d. reply env' = Response 200 d \<and> d ''status'' = Some (JString ''queued''))
      then cds'(item_author c \<mapsto> now_set env') else cds')"
  using chaos_cooldowns process_item_cooldowns by (rule conjI)

theorem cooldown_only_on_success_witness:
  "fst (snd (chaos py_ascii twitch_defaults (brain_says (Response 200 [''status'' \<mapsto> JString ''queued'']))
       (viewer ''X'') (Some ''spawn zombies'') Map.empty)) = [''X'' \<mapsto> 1001]
   \<and> fst (snd (process_item py_ascii youtube_defaults
       (brain_says (Response 200 [''status'' \<mapsto> JString ''ignored'', ''message'' \<mapsto> JString ''too violent'']))
       (super_chat ''X'' ''$5.00'' ''spawn zombies'') Map.empty)) = Map.empty"
proof -
  have a: "fst (snd (chaos py_ascii twitch_defaults (brain_says (Response 200 [''status'' \<mapsto> JString ''queued'']))
       (viewer ''X'') (Some ''spawn zombies'') Map.empty)) = [''X'' \<mapsto> 1001]"
    unfolding cooldown_only_on_success [THEN conjunct1] by (simp add: run_simps)
  have b: "fst (snd (process_item py_ascii youtube_defaults
       (brain_says (Response 200 [''status'' \<mapsto> JString ''ignored'', ''message'' \<mapsto> JString ''too violent'']))
       (super_chat ''X'' ''$5.00'' ''spawn zombies'') Map.empty)) = Map.empty"
    unfolding cooldown_only_on_success [THEN conjunct2] by (simp add: run_simps)
  from a b show ?thesis by (rule conjI)
qed

subsection \<open>A reply with an unknown status\<close>

lemma chaos_silent_none:
  assumes r: "reply env = Response 200 d"
    and s: "d ''status'' \<noteq> Some (JString ''queued'')" "d ''status'' \<noteq> Some (JString ''ignored'')"
    and c: "chaos py cfg env ctx prompt cds = (x, cds', out)"
  shows "cds' = cds \<and> (posts out \<noteq> [] \<longrightarrow>
            x = None \<and> (\<exists>pre. out = pre @ [Print Failed_to_process, Send (author_name ctx) Failed, Print Blank]))"
  using c r s
  by (auto simp: chaos_def Let_def send_to_brain_def posts_append
      split: option.splits sum.splits prod.splits if_splits)

lemma process_item_silent_none:
  assumes r: "reply env = Response 200 d"
    and s: "d ''status'' \<noteq> Some (JString ''queued'')" "d ''status'' \<noteq> Some (JString ''ignored'')"
    and c: "process_item py cfg env c cds = (x, cds', out)"
  shows "cds' = cds \<and> (posts out \<noteq> [] \<longrightarrow>
            x = None \<and> (\<exists>pre. out = pre @ [Print Failed_to_process, Print Blank]))"
  using c r s
  by (auto simp: process_item_def moderate_and_send_def Let_def send_to_brain_def posts_append
      split: option.splits sum.splits prod.splits if_splits)


text \<open>
  Claim C10. When the brain answers 200 and the \<^verbatim>\<open>status\<close> of the JSON object is neither
  \<^verbatim>\<open>queued\<close> nor \<^verbatim>\<open>ignored\<close> (or there is no \<^verbatim>\<open>status\<close> at all), \<^verbatim>\<open>send_to_brain\<close>
  falls off the end of its \<^verbatim>\<open>if\<close>: it returns \<^verbatim>\<open>None\<close> and prints nothing, whereas the
  other failing branches return \<^verbatim>\<open>False\<close>. \<^verbatim>\<open>None\<close> is not truthy, so each caller takes
  its failure branch: the cooldown dictionary is unchanged, and where the POST was
  made the handler ends with its failure report.
\<close>

theorem unknown_status_returns_none:
  assumes "d ''status'' \<noteq> Some (JString ''queued'')" and "d ''status'' \<noteq> Some (JString ''ignored'')"
  shows "send_to_brain (Response 200 d) q = (Inr None, [Post q])
    \<and> \<not> truthy None
    \<and> fst (send_to_brain (RequestException e) q) = Inr (Some False)
    \<and> (code \<noteq> 200 \<longrightarrow> fst (send_to_brain (Response code d2) q) = Inr (Some False))
    \<and> (d2 ''status'' = Some (JString ''ignored'') \<longrightarrow> fst (send_to_brain (Response 200 d2) q) = Inr (Some False))
    \<and> (reply env = Response 200 d \<longrightarrow>
         (case chaos py cfg env ctx prompt cds of (x, cds', out) \<Rightarrow>
            cds' = cds \<and> (posts out \<noteq> [] \<longrightarrow> x = None
              \<and> (\<exists>pre. out = pre @ [Print Failed_to_process, Send (author_name ctx) Failed, Print Blank]))))
    \<and> (reply yenv = Response 200 d \<longrightarrow>
         (case process_item ypy ycfg yenv c ycds of (x, cds', out) \<Rightarrow>
            cds' = ycds \<and> (posts out \<noteq> [] \<longrightarrow> x = None
              \<and> (\<exists>pre. out = pre @ [Print Failed_to_process, Print Blank]))))"
proof -
  have a: "send_to_brain (Response 200 d) q = (Inr None, [Post q])"
    using assms by (simp add: send_to_brain_def)
  have b: "fst (send_to_brain (RequestException e) q) = Inr (Some False)"
    "code \<noteq> 200 \<longrightarrow> fst (send_to_brain (Response code d2) q) = Inr (Some False)"
    "d2 ''status'' = Some (JString ''ignored'') \<longrightarrow> fst (send_to_brain (Response 200 d2) q) = Inr (Some False)"
    by (simp_all add: send_to_brain_def)
  have c: "reply env = Response 200 d \<longrightarrow>
         (case chaos py cfg env ctx prompt cds of (x, cds', out) \<Rightarrow>
            cds' = cds \<and> (posts out \<noteq> [] \<longrightarrow> x = None
              \<and> (\<exists>pre. out = pre @ [Print Failed_to_process, Send (author_name ctx) Failed, Print Blank])))"
  proof
    assume r: "reply env = Response 200 d"
    obtain x cds' out where e: "chaos py cfg env ctx prompt cds = (x, cds', out)"
      by (cases "chaos py cfg env ctx prompt cds")
    from chaos_silent_none [OF r assms(1) assms(2) e] show "case chaos py cfg env ctx prompt cds of
        (x, cds', out) \<Rightarrow>
            cds' = cds \<and> (posts out \<noteq> [] \<longrightarrow> x = None
              \<and> (\<exists>pre. out = pre @ [Print Failed_to_process, Send (author_name ctx) Failed, Print Blank]))"
      by (simp add: e)
  qed
  have d: "reply yenv = Response 200 d \<longrightarrow>
         (case process_item ypy ycfg yenv c ycds of (x, cds', out) \<Rightarrow>
            cds' = ycds \<and> (posts out \<noteq> [] \<longrightarrow> x = None
              \<and> (\<exists>pre. out = pre @ [Print Failed_to_process, Print Blank])))"
  proof
    assume r: "reply yenv = Response 200 d"
    obtain x cds' out where e: "process_item ypy ycfg yenv c ycds = (x, cds', out)"
      by (cases "process_item ypy ycfg yenv c ycds")
    from process_item_silent_none [OF r assms(1) assms(2) e] show "case process_item ypy ycfg yenv c ycds of
        (x, cds', out) \<Rightarrow>
            cds' = ycds \<and> (posts out \<noteq> [] \<longrightarrow> x = None
              \<and> (\<exists>pre. out = pre @ [Print Failed_to_process, Print Blank]))"
      by (simp add: e)
  qed
  from a b c d show ?thesis by simp
qed

theorem unknown_status_returns_none_witness:
  "Map.empty ''status'' \<noteq> Some (JString ''queued'') \<and> Map.empty ''status'' \<noteq> Some (JString ''ignored'')
   \<and> send_to_brain (Response 200 Map.empty) ''spawn zombies'' = (Inr None, [Post ''spawn zombies''])
   \<and> chaos py_ascii twitch_defaults (brain_says (Response 200 Map.empty)) (viewer ''X'') (Some ''spawn zombies'')
        Map.empty
      = (None, Map.empty,
         [Print (Chat_from ''X''), Print (Message_line ''spawn zombies''), Send ''X'' Processing,
          Post ''spawn zombies'', Print Failed_to_process, Send ''X'' Failed, Print Blank])"
proof -
  have s: "(Map.empty :: string \<rightharpoonup> jvalue) ''status'' \<noteq> Some (JString ''queued'')"
    "(Map.empty :: string \<rightharpoonup> jvalue) ''status'' \<noteq> Some (JString ''ignored'')"
    by simp_all
  note w = unknown_status_returns_none [OF s, where q = "''spawn zombies''"
      and env = "brain_says (Response 200 Map.empty)" and py = py_ascii and cfg = twitch_defaults
      and ctx = "viewer ''X''" and prompt = "Some ''spawn zombies''" and cds = Map.empty]
  have a: "send_to_brain (Response 200 Map.empty) ''spawn zombies'' = (Inr None, [Post ''spawn zombies''])"
    using w by blast
  have c: "chaos py_ascii twitch_defaults (brain_says (Response 200 Map.empty)) (viewer ''X'') (Some ''spawn zombies'')
        Map.empty
      = (None, Map.empty,
         [Print (Chat_from ''X''), Print (Message_line ''spawn zombies''), Send ''X'' Processing,
          Post ''spawn zombies'', Print Failed_to_process, Send ''X'' Failed, Print Blank])"
    by (simp add: chaos_def Let_def run_simps a twitch_filter_urls_def twitch_is_moderator_def url_eval)
  from s a c show ?thesis by simp
qed

subsection \<open>What the sender is told\<close>

lemma chaos_dispatch:
  assumes "p \<noteq> []" and "tag_bits py ctx = Inr bits"
    and "\<not> (REQUIRE_BITS cfg \<and> bits < MIN_BITS_AMOUNT cfg)"
    and "\<not> is_on_cooldown cfg (now_check env) cds (author_name ctx)"
    and "twitch_filter_urls py cfg p ctx = (q, was)"
    and "send_to_brain (reply env) q = (res, out3)"
  shows "chaos py cfg env ctx (Some p) cds =
     (let a = author_name ctx;
          out12 = [Print (if bits > 0 then Bits_from a bits else Chat_from a), Print (Message_line p)]
                  @ (if was then [Print Urls_removed, Print (Filtered_line q), Send a Urls_filtered] else [])
                  @ [Send a Processing] @ out3
      in case res of
           Inl e \<Rightarrow> (Some e, cds, out12)
         | Inr r \<Rightarrow>
             if truthy r
             then (None, cds(a \<mapsto> now_set env), out12 @ [Print Chaos_activated, Send a Unleashed, Print Blank])
             else (None, cds, out12 @ [Print Failed_to_process, Send a Failed, Print Blank]))"
  using assms by (simp add: chaos_def Let_def set_cooldown_def split: sum.splits)

lemma chaos_rejects:
  assumes "p \<noteq> []" and "tag_bits py ctx = Inr bits"
  shows "REQUIRE_BITS cfg \<and> bits < MIN_BITS_AMOUNT cfg \<Longrightarrow>
           chaos py cfg env ctx (Some p) cds =
             (None, cds, [Print (if bits > 0 then Bits_from (author_name ctx) bits else Chat_from (author_name ctx)),
                          Print (Message_line p), Print Insufficient_bits, Send (author_name ctx) Please_cheer])"
    and "\<not> (REQUIRE_BITS cfg \<and> bits < MIN_BITS_AMOUNT cfg) \<Longrightarrow>
         is_on_cooldown cfg (now_check env) cds (author_name ctx) \<Longrightarrow>
           chaos py cfg env ctx (Some p) cds =
             (None, cds, [Print (if bits > 0 then Bits_from (author_name ctx) bits else Chat_from (author_name ctx)),
                          Print (Message_line p), Print On_cooldown, Send (author_name ctx) Please_wait])"
  using assms by (simp_all add: chaos_def Let_def)

lemma chaos_sends:
  assumes "p \<noteq> []" and "tag_bits py ctx = Inr bits"
  shows "sends (snd (snd (chaos py cfg env ctx (Some p) cds))) =
     (let a = author_name ctx in
      if REQUIRE_BITS cfg \<and> bits < MIN_BITS_AMOUNT cfg then [(a, Please_cheer)]
      else if is_on_cooldown cfg (now_check env) cds a then [(a, Please_wait)]
      else (if snd (twitch_filter_urls py cfg p ctx) then [(a, Urls_filtered)] else [])
           @ [(a, Processing)]
           @ (case fst (send_to_brain (reply env) (fst (twitch_filter_urls py cfg p ctx))) of
                Inl e \<Rightarrow> []
              | Inr r \<Rightarrow> if truthy r then [(a, Unleashed)] else [(a, Failed)]))"
proof (cases "REQUIRE_BITS cfg \<and> bits < MIN_BITS_AMOUNT cfg")
  case True
  from chaos_rejects(1) [OF assms True] True show ?thesis by (simp add: Let_def)
next
  case gate: False
  show ?thesis
  proof (cases "is_on_cooldown cfg (now_check env) cds (author_name ctx)")
    case True
    from chaos_rejects(2) [OF assms gate True] gate True show ?thesis by (auto simp: Let_def)
  next
    case False
    obtain q was where f: "twitch_filter_urls py cfg p ctx = (q, was)"
      by (cases "twitch_filter_urls py cfg p ctx")
    obtain res out3 where s: "send_to_brain (reply env) q = (res, out3)"
      by (cases "send_to_brain (reply env) q")
    from send_to_brain_sends [of "reply env" q] s have n: "sends out3 = []" by simp
    from chaos_dispatch [OF assms gate False f s] gate False f s n show ?thesis
      by (auto simp: Let_def sends_append split: sum.splits)
  qed
qed


lemma moderate_and_send_run:
  assumes "youtube_filter_urls py cfg t (item_author c)
             (case isChatModerator c of Some b \<Rightarrow> b | None \<Rightarrow> False) = (q, was)"
    and "send_to_brain (reply env) q = (res, out2)"
  shows "moderate_and_send py cfg env c t cds =
     (let a = item_author c;
          out1 = (if was then [Print Urls_removed, Print (Filtered_line q)] else [])
      in if is_on_cooldown cfg (now_check env) cds a then (None, cds, out1 @ [Print On_cooldown], False)
         else case res of
                Inl e \<Rightarrow> (Some e, cds, out1 @ out2, False)
              | Inr r \<Rightarrow>
                  if truthy r then (None, cds(a \<mapsto> now_set env), out1 @ out2 @ [Print Chaos_activated], True)
                  else (None, cds, out1 @ out2 @ [Print Failed_to_process], True))"
  using assms by (simp add: moderate_and_send_def Let_def set_cooldown_def split: sum.splits)

lemma moderate_and_send_sends:
  "sends (fst (snd (snd (moderate_and_send py cfg env c t cds)))) = []"
proof -
  obtain q was where f: "youtube_filter_urls py cfg t (item_author c)
             (case isChatModerator c of Some b \<Rightarrow> b | None \<Rightarrow> False) = (q, was)"
    by (cases "youtube_filter_urls py cfg t (item_author c)
             (case isChatModerator c of Some b \<Rightarrow> b | None \<Rightarrow> False)")
  obtain res out2 where s: "send_to_brain (reply env) q = (res, out2)"
    by (cases "send_to_brain (reply env) q")
  from send_to_brain_sends [of "reply env" q] s have n: "sends out2 = []" by simp
  show ?thesis
    unfolding moderate_and_send_run [OF f s]
    by (simp add: Let_def sends_append n split: sum.splits)
qed

lemma process_item_sends: "sends (snd (snd (process_item py cfg env c cds))) = []"
proof -
  obtain x1 c1 o1 f1 where m1: "moderate_and_send py cfg env c (item_message c) cds = (x1, c1, o1, f1)"
    by (cases "moderate_and_send py cfg env c (item_message c) cds")
  obtain x2 c2 o2 f2 where m2: "moderate_and_send py cfg env c
      (strip py (drop (length (CHAT_COMMAND cfg)) (item_message c))) cds = (x2, c2, o2, f2)"
    by (cases "moderate_and_send py cfg env c
      (strip py (drop (length (CHAT_COMMAND cfg)) (item_message c))) cds")
  from moderate_and_send_sends [of py cfg env c "item_message c" cds] m1 have s1: "sends o1 = []"
    by simp
  from moderate_and_send_sends [of py cfg env c
      "strip py (drop (length (CHAT_COMMAND cfg)) (item_message c))" cds] m2 have s2: "sends o2 = []"
    by simp
  show ?thesis
    by (simp add: process_item_def Let_def case_prod_beta m1 m2 s1 s2 sends_append)
qed


lemma example_fields:
  "author_name (viewer n) = n" "\<not> author_is_mod (viewer n)" "\<not> author_is_broadcaster (viewer n)"
  "message_tags (viewer n) = None" "tag_bits py (viewer n) = Inr 0"
  "\<not> REQUIRE_BITS twitch_defaults" "MIN_BITS_AMOUNT twitch_defaults = 100"
  "MIN_SUPER_CHAT_AMOUNT youtube_defaults = 1" "\<not> ALLOW_REGULAR_CHAT youtube_defaults"
  "now_check (brain_says r) = 1000" "now_set (brain_says r) = 1001" "reply (brain_says r) = r"
  "\<not> is_on_cooldown cfg now Map.empty a"
  "item_author (super_chat n amt m) = n" "item_message (super_chat n amt m) = m"
  "item_type (super_chat n amt m) = ''superChat''"
  "format_super_chat_message (super_chat n amt m) = (amt, ''USD'')"
  "isChatModerator (super_chat n amt m) = Some False"
  by (simp_all add: viewer_def tag_bits_def twitch_defaults_def youtube_defaults_def brain_says_def
      is_on_cooldown_def super_chat_def format_super_chat_message_def)

lemma plain_prompt:
  "twitch_filter_urls py twitch_defaults ''spawn zombies'' (viewer ''X'') = (''spawn zombies'', False)"
  "youtube_filter_urls py youtube_defaults ''spawn zombies'' ''X'' False = (''spawn zombies'', False)"
  by (simp_all add: twitch_filter_urls_def twitch_is_moderator_def youtube_filter_urls_def
      youtube_is_moderator_def example_fields defaults_fields url_eval)

text \<open>
  Claim C4, as the source has it. In the Twitch handler each rejection of a command
  sends the author exactly one message about it: the request for bits below the
  threshold, the request to wait during a cooldown, the failure message after a
  dispatch that returned without success (whatever the reason); a successful dispatch
  sends exactly one acknowledgement. The last two follow the notice that the request
  is being processed, and the notice about removed URLs when the filter changed the
  prompt. The YouTube loop never sends anything to the author: its outcomes are printed
  on the console.
\<close>

theorem sender_messages_per_path:
  "(p \<noteq> [] \<and> tag_bits py ctx = Inr bits \<longrightarrow>
      sends (snd (snd (chaos py cfg env ctx (Some p) cds))) =
        (let a = author_name ctx in
         if REQUIRE_BITS cfg \<and> bits < MIN_BITS_AMOUNT cfg then [(a, Please_cheer)]
         else if is_on_cooldown cfg (now_check env) cds a then [(a, Please_wait)]
         else (if snd (twitch_filter_urls py cfg p ctx) then [(a, Urls_filtered)] else [])
              @ [(a, Processing)]
              @ (case fst (send_to_brain (reply env) (fst (twitch_filter_urls py cfg p ctx))) of
                   Inl e \<Rightarrow> []
                 | Inr r \<Rightarrow> if truthy r then [(a, Unleashed)] else [(a, Failed)])))
   \<and> sends (snd (snd (process_item ypy ycfg yenv c ycds))) = []"
  using chaos_sends [of p py ctx bits cfg env cds] process_item_sends [of ypy ycfg yenv c ycds]
  by blast

theorem sender_messages_per_path_witness:
  "''spawn zombies'' \<noteq> []
   \<and> tag_bits py_ascii ((viewer ''X'')\<lparr>message_tags := Some [(''bits'', ''50'')]\<rparr>) = Inr 50
   \<and> sends (snd (snd (chaos py_ascii (twitch_defaults\<lparr>REQUIRE_BITS := True\<rparr>)
        (brain_says (Response 200 [''status'' \<mapsto> JString ''queued'']))
        ((viewer ''X'')\<lparr>message_tags := Some [(''bits'', ''50'')]\<rparr>) (Some ''spawn zombies'') Map.empty)))
      = [(''X'', Please_cheer)]"
proof -
  have a: "''spawn zombies'' \<noteq> []" by simp
  have b: "tag_bits py_ascii ((viewer ''X'')\<lparr>message_tags := Some [(''bits'', ''50'')]\<rparr>) = Inr 50"
    by (simp add: run_simps)
  have c: "REQUIRE_BITS (twitch_defaults\<lparr>REQUIRE_BITS := True\<rparr>)
      \<and> 50 < MIN_BITS_AMOUNT (twitch_defaults\<lparr>REQUIRE_BITS := True\<rparr>)"
    by (simp add: twitch_defaults_def)
  from sender_messages_per_path [THEN conjunct1, rule_format, OF conjI, OF a b,
      of "twitch_defaults\<lparr>REQUIRE_BITS := True\<rparr>"
         "brain_says (Response 200 [''status'' \<mapsto> JString ''queued''])" Map.empty] c
  have "sends (snd (snd (chaos py_ascii (twitch_defaults\<lparr>REQUIRE_BITS := True\<rparr>)
        (brain_says (Response 200 [''status'' \<mapsto> JString ''queued'']))
        ((viewer ''X'')\<lparr>message_tags := Some [(''bits'', ''50'')]\<rparr>) (Some ''spawn zombies'') Map.empty)))
      = [(''X'', Please_cheer)]"
    by (simp add: Let_def viewer_def)
  with a b show ?thesis by blast
qed

text \<open>
  Claim C4 as stated fails: a Super Chat below the minimum is rejected by the YouTube
  loop without any message to its author, and a Twitch command that cannot reach the
  brain gets two messages, not one.
\<close>

theorem silent_and_repeated_messages:
  "sends (snd (snd (process_item py_ascii youtube_defaults (brain_says (RequestException ''timed out''))
       (super_chat ''X'' ''$0.50'' ''spawn zombies'') Map.empty))) = []
   \<and> prints (snd (snd (process_item py_ascii youtube_defaults (brain_says (RequestException ''timed out''))
       (super_chat ''X'' ''$0.50'' ''spawn zombies'') Map.empty)))
      = [Super_chat_from ''X'' ''$0.50'' ''USD'', Message_line ''spawn zombies'', Amount_too_low, Blank]
   \<and> sends (snd (snd (chaos py_ascii twitch_defaults (brain_says (RequestException ''timed out''))
       (viewer ''X'') (Some ''spawn zombies'') Map.empty)))
      = [(''X'', Processing), (''X'', Failed)]"
proof -
  have y: "process_item py_ascii youtube_defaults (brain_says (RequestException ''timed out''))
       (super_chat ''X'' ''$0.50'' ''spawn zombies'') Map.empty
     = (None, Map.empty, [Print (Super_chat_from ''X'' ''$0.50'' ''USD''), Print (Message_line ''spawn zombies''),
          Print Amount_too_low, Print Blank])"
    by (simp add: process_item_def Let_def run_simps)
  have t: "chaos py_ascii twitch_defaults (brain_says (RequestException ''timed out''))
       (viewer ''X'') (Some ''spawn zombies'') Map.empty
     = (None, Map.empty, [Print (Chat_from ''X''), Print (Message_line ''spawn zombies''), Send ''X'' Processing,
          Post ''spawn zombies'', Print (Failed_to_connect ''timed out''), Print Failed_to_process,
          Send ''X'' Failed, Print Blank])"
    by (simp add: chaos_def Let_def plain_prompt send_to_brain_def example_fields)
  show ?thesis by (simp add: y t)
qed

subsection \<open>A command the brain ignores\<close>

lemma chaos_same_for_failures:
  assumes "\<And>q. fst (send_to_brain r1 q) = fst (send_to_brain r2 q)"
  shows "fst (chaos py cfg (env\<lparr>reply := r1\<rparr>) ctx prompt cds) = fst (chaos py cfg (env\<lparr>reply := r2\<rparr>) ctx prompt cds)
     \<and> fst (snd (chaos py cfg (env\<lparr>reply := r1\<rparr>) ctx prompt cds)) = fst (snd (chaos py cfg (env\<lparr>reply := r2\<rparr>) ctx prompt cds))
     \<and> sends (snd (snd (chaos py cfg (env\<lparr>reply := r1\<rparr>) ctx prompt cds)))
         = sends (snd (snd (chaos py cfg (env\<lparr>reply := r2\<rparr>) ctx prompt cds)))"
proof (cases prompt)
  case None
  then show ?thesis by (simp add: chaos_def)
next
  case (Some p)
  show ?thesis
  proof (cases "p = [] \<or> (\<exists>e. tag_bits py ctx = Inl e)")
    case True
    then show ?thesis using Some by (auto simp: chaos_def Let_def)
  next
    case False
    then obtain bits where b: "tag_bits py ctx = Inr bits" and p: "p \<noteq> []"
      by (cases "tag_bits py ctx") auto
    show ?thesis
    proof (cases "(REQUIRE_BITS cfg \<and> bits < MIN_BITS_AMOUNT cfg) \<or> is_on_cooldown cfg (now_check env) cds (author_name ctx)")
      case True
      then show ?thesis using Some b p by (auto simp: chaos_def Let_def)
    next
      case False
      obtain q was where f: "twitch_filter_urls py cfg p ctx = (q, was)"
        by (cases "twitch_filter_urls py cfg p ctx")
      obtain res1 o1 where s1: "send_to_brain r1 q = (res1, o1)" by (cases "send_to_brain r1 q")
      obtain res2 o2 where s2: "send_to_brain r2 q = (res2, o2)" by (cases "send_to_brain r2 q")
      from assms [of q] s1 s2 have e: "res1 = res2" by simp
      from send_to_brain_sends [of r1 q] s1 have n1: "sends o1 = []" by simp
      from send_to_brain_sends [of r2 q] s2 have n2: "sends o2 = []" by simp
      from False have g: "\<not> (REQUIRE_BITS cfg \<and> bits < MIN_BITS_AMOUNT cfg)"
        and c1: "\<not> is_on_cooldown cfg (now_check (env\<lparr>reply := r1\<rparr>)) cds (author_name ctx)"
        and c2: "\<not> is_on_cooldown cfg (now_check (env\<lparr>reply := r2\<rparr>)) cds (author_name ctx)"
        by simp_all
      have d1: "send_to_brain (reply (env\<lparr>reply := r1\<rparr>)) q = (res1, o1)" using s1 by simp
      have d2: "send_to_brain (reply (env\<lparr>reply := r2\<rparr>)) q = (res2, o2)" using s2 by simp
      show ?thesis
        unfolding Some chaos_dispatch [OF p b g c1 f d1] chaos_dispatch [OF p b g c2 f d2]
        by (simp add: Let_def e n1 n2 sends_append split: sum.splits)
    qed
  qed
qed


lemma example_amounts:
  "amount_value py_ascii ''$5.00'' = 5" "amount_value py_ascii ''$0.50'' = 1 / 2"
  "amount_value py_ascii ''$1.00'' = 1" "amount_value py_ascii ''Unknown'' = 0"
  "amount_value py_ascii ''1.2.3'' = 0"
  by (simp_all add: amount_value_def py_ascii_def ascii_float_def digits_value_def ascii_digit_def
      in_range_def)

text \<open>
  Claim C3, as the source has it. For a reply 200 with status \<^verbatim>\<open>ignored\<close>,
  \<^verbatim>\<open>send_to_brain\<close> returns \<^verbatim>\<open>False\<close>, the value it also returns when the brain cannot be
  reached, and prints a console line that carries the \<^verbatim>\<open>message\<close> field of the reply;
  that line differs from the one printed for a connection failure. The two cases differ
  on the console only: the Twitch handler ends the same way and sends the author the
  same chat messages in both, and the YouTube loop sends nothing in either.
\<close>

theorem safety_rejection_only_on_console:
  assumes "d ''status'' = Some (JString ''ignored'')"
  shows "send_to_brain (Response 200 d) q
           = (Inr (Some False), [Post q, Print (Blocked_by_safety (d ''message''))])
    \<and> send_to_brain (RequestException e) q = (Inr (Some False), [Post q, Print (Failed_to_connect e)])
    \<and> Blocked_by_safety (d ''message'') \<noteq> Failed_to_connect e
    \<and> fst (chaos py cfg (env\<lparr>reply := Response 200 d\<rparr>) ctx prompt cds)
        = fst (chaos py cfg (env\<lparr>reply := RequestException e\<rparr>) ctx prompt cds)
    \<and> sends (snd (snd (chaos py cfg (env\<lparr>reply := Response 200 d\<rparr>) ctx prompt cds)))
        = sends (snd (snd (chaos py cfg (env\<lparr>reply := RequestException e\<rparr>) ctx prompt cds)))
    \<and> sends (snd (snd (process_item ypy ycfg (yenv\<lparr>reply := Response 200 d\<rparr>) c ycds))) = []
    \<and> sends (snd (snd (process_item ypy ycfg (yenv\<lparr>reply := RequestException e\<rparr>) c ycds))) = []"
proof -
  have a: "send_to_brain (Response 200 d) q
           = (Inr (Some False), [Post q, Print (Blocked_by_safety (d ''message''))])" for q
    using assms by (simp add: send_to_brain_def)
  have b: "send_to_brain (RequestException e) q = (Inr (Some False), [Post q, Print (Failed_to_connect e)])"
    for q by (simp add: send_to_brain_def)
  have "fst (send_to_brain (Response 200 d) q) = fst (send_to_brain (RequestException e) q)" for q
    by (simp add: a b)
  from chaos_same_for_failures [OF this, of py cfg env ctx prompt cds] a [of q] b [of q]
  show ?thesis by (simp add: process_item_sends)
qed

theorem safety_rejection_only_on_console_witness:
  "[''status'' \<mapsto> JString ''ignored'', ''message'' \<mapsto> JString ''too violent''] ''status''
     = Some (JString ''ignored'')
   \<and> send_to_brain (Response 200 [''status'' \<mapsto> JString ''ignored'', ''message'' \<mapsto> JString ''too violent''])
        ''spawn zombies''
      = (Inr (Some False), [Post ''spawn zombies'', Print (Blocked_by_safety (Some (JString ''too violent'')))])"
proof -
  have a: "[''status'' \<mapsto> JString ''ignored'', ''message'' \<mapsto> JString ''too violent''] ''status''
     = Some (JString ''ignored'')"
    by simp
  from safety_rejection_only_on_console
      [where d = "[''status'' \<mapsto> JString ''ignored'', ''message'' \<mapsto> JString ''too violent'']"
         and q = "''spawn zombies''", OF a, THEN conjunct1] a
  show ?thesis by simp
qed

text \<open>
  Claim C3 as stated fails: the result of the dispatch carries no message, and the
  author of a command the brain ignored is told exactly what the author of a command
  that never reached the brain is told.
\<close>

theorem safety_rejection_told_like_outage:
  "fst (send_to_brain (Response 200 [''status'' \<mapsto> JString ''ignored'', ''message'' \<mapsto> JString ''too violent''])
        ''spawn zombies'') = Inr (Some False)
   \<and> fst (send_to_brain (RequestException ''timed out'') ''spawn zombies'') = Inr (Some False)
   \<and> sends (snd (snd (chaos py_ascii twitch_defaults
        (brain_says (Response 200 [''status'' \<mapsto> JString ''ignored'', ''message'' \<mapsto> JString ''too violent'']))
        (viewer ''X'') (Some ''spawn zombies'') Map.empty)))
      = [(''X'', Processing), (''X'', Failed)]
   \<and> sends (snd (snd (chaos py_ascii twitch_defaults (brain_says (RequestException ''timed out''))
        (viewer ''X'') (Some ''spawn zombies'') Map.empty)))
      = [(''X'', Processing), (''X'', Failed)]
   \<and> sends (snd (snd (process_item py_ascii youtube_defaults
        (brain_says (Response 200 [''status'' \<mapsto> JString ''ignored'', ''message'' \<mapsto> JString ''too violent'']))
        (super_chat ''X'' ''$5.00'' ''spawn zombies'') Map.empty)))
      = []"
proof -
  have t1: "chaos py_ascii twitch_defaults
        (brain_says (Response 200 [''status'' \<mapsto> JString ''ignored'', ''message'' \<mapsto> JString ''too violent'']))
        (viewer ''X'') (Some ''spawn zombies'') Map.empty
     = (None, Map.empty, [Print (Chat_from ''X''), Print (Message_line ''spawn zombies''), Send ''X'' Processing,
          Post ''spawn zombies'', Print (Blocked_by_safety (Some (JString ''too violent''))),
          Print Failed_to_process, Send ''X'' Failed, Print Blank])"
    by (simp add: chaos_def Let_def plain_prompt send_to_brain_def example_fields)
  have t2: "chaos py_ascii twitch_defaults (brain_says (RequestException ''timed out''))
       (viewer ''X'') (Some ''spawn zombies'') Map.empty
     = (None, Map.empty, [Print (Chat_from ''X''), Print (Message_line ''spawn zombies''), Send ''X'' Processing,
          Post ''spawn zombies'', Print (Failed_to_connect ''timed out''), Print Failed_to_process,
          Send ''X'' Failed, Print Blank])"
    by (simp add: chaos_def Let_def plain_prompt send_to_brain_def example_fields)
  have y: "process_item py_ascii youtube_defaults
        (brain_says (Response 200 [''status'' \<mapsto> JString ''ignored'', ''message'' \<mapsto> JString ''too violent'']))
        (super_chat ''X'' ''$5.00'' ''spawn zombies'') Map.empty
     = (None, Map.empty, [Print (Super_chat_from ''X'' ''$5.00'' ''USD''), Print (Message_line ''spawn zombies''),
          Post ''spawn zombies'', Print (Blocked_by_safety (Some (JString ''too violent''))),
          Print Failed_to_process, Print Blank])"
    by (simp add: process_item_def moderate_and_send_def Let_def plain_prompt send_to_brain_def
        example_fields example_amounts)
  show ?thesis by (simp add: t1 t2 y send_to_brain_def)
qed

subsection \<open>The threshold gate\<close>

lemma send_to_brain_prints_no_gate:
  "Print Insufficient_bits \<notin> set (snd (send_to_brain r q))"
  "Print Amount_too_low \<notin> set (snd (send_to_brain r q))"
  by (simp_all add: send_to_brain_def split: http_result.splits)

lemma chaos_gate:
  assumes "p \<noteq> []" and "tag_bits py ctx = Inr bits"
  shows "(Print Insufficient_bits \<in> set (snd (snd (chaos py cfg env ctx (Some p) cds))))
           = (REQUIRE_BITS cfg \<and> bits < MIN_BITS_AMOUNT cfg)"
proof (cases "REQUIRE_BITS cfg \<and> bits < MIN_BITS_AMOUNT cfg")
  case True
  from chaos_rejects(1) [OF assms True] True show ?thesis by simp
next
  case gate: False
  show ?thesis
  proof (cases "is_on_cooldown cfg (now_check env) cds (author_name ctx)")
    case True
    from chaos_rejects(2) [OF assms gate True] gate show ?thesis by auto
  next
    case False
    obtain q was where f: "twitch_filter_urls py cfg p ctx = (q, was)"
      by (cases "twitch_filter_urls py cfg p ctx")
    obtain res out3 where s: "send_to_brain (reply env) q = (res, out3)"
      by (cases "send_to_brain (reply env) q")
    from send_to_brain_prints_no_gate(1) [of "reply env" q] s
    have n: "Print Insufficient_bits \<notin> set out3" by simp
    from chaos_dispatch [OF assms gate False f s] gate n show ?thesis
      by (auto simp: Let_def split: sum.splits if_splits)
  qed
qed

lemma process_item_gate:
  assumes "item_type c = ''superChat''"
  shows "(Print Amount_too_low \<in> set (snd (snd (process_item py cfg env c cds))))
           = (\<not> amount_value py (fst (format_super_chat_message c)) \<ge> MIN_SUPER_CHAT_AMOUNT cfg)"
    and "\<not> amount_value py (fst (format_super_chat_message c)) \<ge> MIN_SUPER_CHAT_AMOUNT cfg \<Longrightarrow>
         process_item py cfg env c cds =
           (None, cds, [Print (Super_chat_from (item_author c) (fst (format_super_chat_message c))
                                 (snd (format_super_chat_message c))),
                        Print (Message_line (item_message c)), Print Amount_too_low, Print Blank])"
proof -
  obtain q was where f: "youtube_filter_urls py cfg (item_message c) (item_author c)
             (case isChatModerator c of Some b \<Rightarrow> b | None \<Rightarrow> False) = (q, was)"
    by (cases "youtube_filter_urls py cfg (item_message c) (item_author c)
             (case isChatModerator c of Some b \<Rightarrow> b | None \<Rightarrow> False)")
  obtain res out2 where s: "send_to_brain (reply env) q = (res, out2)"
    by (cases "send_to_brain (reply env) q")
  from send_to_brain_prints_no_gate(2) [of "reply env" q] s
  have n: "Print Amount_too_low \<notin> set out2" by simp
  show "(Print Amount_too_low \<in> set (snd (snd (process_item py cfg env c cds))))
           = (\<not> amount_value py (fst (format_super_chat_message c)) \<ge> MIN_SUPER_CHAT_AMOUNT cfg)"
    using assms n
    by (auto simp: process_item_def Let_def case_prod_beta moderate_and_send_run [OF f s]
        split: sum.splits if_splits)
  show "\<not> amount_value py (fst (format_super_chat_message c)) \<ge> MIN_SUPER_CHAT_AMOUNT cfg \<Longrightarrow>
         process_item py cfg env c cds =
           (None, cds, [Print (Super_chat_from (item_author c) (fst (format_super_chat_message c))
                                 (snd (format_super_chat_message c))),
                        Print (Message_line (item_message c)), Print Amount_too_low, Print Blank])"
    using assms by (simp add: process_item_def Let_def case_prod_beta)
qed


text \<open>
  Claim C5. The inline checks of the handlers agree with \<open>passes\<close>. In the Twitch
  handler the payment requirement is \<^verbatim>\<open>REQUIRE_BITS\<close> and the minimum
  \<^verbatim>\<open>MIN_BITS_AMOUNT\<close>; for a Super Chat the YouTube loop always requires payment, with
  the minimum \<^verbatim>\<open>MIN_SUPER_CHAT_AMOUNT\<close>. A command is turned down at the gate (the line
  about insufficient bits, or about the amount being too low, is printed) exactly when
  \<open>passes\<close> is false, and then nothing is posted to the brain and the cooldown
  dictionary is unchanged. An amount equal to the minimum passes, an amount strictly
  below a required minimum does not, and without a payment requirement every amount
  passes.
\<close>

theorem threshold_gate:
  fixes a m :: "'n::preorder"
  shows
  "(p \<noteq> [] \<and> tag_bits py ctx = Inr bits \<longrightarrow>
      (case chaos py cfg env ctx (Some p) cds of (x, cds', out) \<Rightarrow>
         (Print Insufficient_bits \<notin> set out)
           = passes bits \<lparr>requirePayment = REQUIRE_BITS cfg, minimumAmount = MIN_BITS_AMOUNT cfg\<rparr>
         \<and> (\<not> passes bits \<lparr>requirePayment = REQUIRE_BITS cfg, minimumAmount = MIN_BITS_AMOUNT cfg\<rparr>
              \<longrightarrow> x = None \<and> cds' = cds \<and> posts out = []
                  \<and> sends out = [(author_name ctx, Please_cheer)])))
   \<and> (item_type c = ''superChat'' \<longrightarrow>
      (case process_item ypy ycfg yenv c ycds of (x, cds', out) \<Rightarrow>
         (Print Amount_too_low \<notin> set out)
           = passes (amount_value ypy (fst (format_super_chat_message c)))
               \<lparr>requirePayment = True, minimumAmount = MIN_SUPER_CHAT_AMOUNT ycfg\<rparr>
         \<and> (\<not> passes (amount_value ypy (fst (format_super_chat_message c)))
                 \<lparr>requirePayment = True, minimumAmount = MIN_SUPER_CHAT_AMOUNT ycfg\<rparr>
              \<longrightarrow> x = None \<and> cds' = ycds \<and> posts out = [] \<and> sends out = [])))
   \<and> passes m \<lparr>requirePayment = rq, minimumAmount = m\<rparr>
   \<and> (a < m \<longrightarrow> \<not> passes a \<lparr>requirePayment = True, minimumAmount = m\<rparr>)
   \<and> passes a \<lparr>requirePayment = False, minimumAmount = m\<rparr>"
proof (intro conjI impI)
  assume h: "p \<noteq> [] \<and> tag_bits py ctx = Inr bits"
  then have p: "p \<noteq> []" and b: "tag_bits py ctx = Inr bits" by simp_all
  obtain x cds' out where e: "chaos py cfg env ctx (Some p) cds = (x, cds', out)"
    by (cases "chaos py cfg env ctx (Some p) cds")
  from chaos_gate [OF p b, where cfg = cfg and env = env and cds = cds] e
  have g: "(Print Insufficient_bits \<in> set out) = (REQUIRE_BITS cfg \<and> bits < MIN_BITS_AMOUNT cfg)"
    by simp
  have r: "REQUIRE_BITS cfg \<and> bits < MIN_BITS_AMOUNT cfg \<Longrightarrow>
      x = None \<and> cds' = cds \<and> posts out = [] \<and> sends out = [(author_name ctx, Please_cheer)]"
    using chaos_rejects(1) [OF p b, where cfg = cfg and env = env and cds = cds] e by auto
  show "case chaos py cfg env ctx (Some p) cds of (x, cds', out) \<Rightarrow>
         (Print Insufficient_bits \<notin> set out)
           = passes bits \<lparr>requirePayment = REQUIRE_BITS cfg, minimumAmount = MIN_BITS_AMOUNT cfg\<rparr>
         \<and> (\<not> passes bits \<lparr>requirePayment = REQUIRE_BITS cfg, minimumAmount = MIN_BITS_AMOUNT cfg\<rparr>
              \<longrightarrow> x = None \<and> cds' = cds \<and> posts out = []
                  \<and> sends out = [(author_name ctx, Please_cheer)])"
    using g r by (auto simp: e passes_def)
next
  assume t: "item_type c = ''superChat''"
  obtain x cds' out where e: "process_item ypy ycfg yenv c ycds = (x, cds', out)"
    by (cases "process_item ypy ycfg yenv c ycds")
  from process_item_gate(1) [OF t, where py = ypy and cfg = ycfg and env = yenv and cds = ycds] e
  have g: "(Print Amount_too_low \<in> set out)
      = (\<not> amount_value ypy (fst (format_super_chat_message c)) \<ge> MIN_SUPER_CHAT_AMOUNT ycfg)"
    by simp
  have r: "\<not> amount_value ypy (fst (format_super_chat_message c)) \<ge> MIN_SUPER_CHAT_AMOUNT ycfg \<Longrightarrow>
      x = None \<and> cds' = ycds \<and> posts out = [] \<and> sends out = []"
    using process_item_gate(2) [OF t, where py = ypy and cfg = ycfg and env = yenv and cds = ycds] e by auto
  show "case process_item ypy ycfg yenv c ycds of (x, cds', out) \<Rightarrow>
         (Print Amount_too_low \<notin> set out)
           = passes (amount_value ypy (fst (format_super_chat_message c)))
               \<lparr>requirePayment = True, minimumAmount = MIN_SUPER_CHAT_AMOUNT ycfg\<rparr>
         \<and> (\<not> passes (amount_value ypy (fst (format_super_chat_message c)))
                 \<lparr>requirePayment = True, minimumAmount = MIN_SUPER_CHAT_AMOUNT ycfg\<rparr>
              \<longrightarrow> x = None \<and> cds' = ycds \<and> posts out = [] \<and> sends out = [])"
    using g r by (auto simp: e passes_def)
next
  show "passes m \<lparr>requirePayment = rq, minimumAmount = m\<rparr>"
    by (simp add: passes_def)
next
  assume "a < m"
  then show "\<not> passes a \<lparr>requirePayment = True, minimumAmount = m\<rparr>"
    by (simp add: passes_def less_le_not_le)
next
  show "passes a \<lparr>requirePayment = False, minimumAmount = m\<rparr>"
    by (simp add: passes_def)
qed


theorem threshold_gate_witness:
  "''spawn zombies'' \<noteq> []
   \<and> tag_bits py_ascii ((viewer ''X'')\<lparr>message_tags := Some [(''bits'', ''100'')]\<rparr>) = Inr 100
   \<and> passes (100::int) \<lparr>requirePayment = True, minimumAmount = 100\<rparr>
   \<and> Print Insufficient_bits \<notin> set (snd (snd (chaos py_ascii (twitch_defaults\<lparr>REQUIRE_BITS := True\<rparr>)
         (brain_says (Response 200 [''status'' \<mapsto> JString ''queued'']))
         ((viewer ''X'')\<lparr>message_tags := Some [(''bits'', ''100'')]\<rparr>) (Some ''spawn zombies'') Map.empty)))
   \<and> item_type (super_chat ''X'' ''$0.50'' ''spawn zombies'') = ''superChat''
   \<and> (1 / 2 :: rat) < 1
   \<and> \<not> passes (1 / 2 :: rat) \<lparr>requirePayment = True, minimumAmount = 1\<rparr>
   \<and> posts (snd (snd (process_item py_ascii youtube_defaults
         (brain_says (Response 200 [''status'' \<mapsto> JString ''queued'']))
         (super_chat ''X'' ''$0.50'' ''spawn zombies'') Map.empty))) = []"
proof -
  have a: "''spawn zombies'' \<noteq> []
      \<and> tag_bits py_ascii ((viewer ''X'')\<lparr>message_tags := Some [(''bits'', ''100'')]\<rparr>) = Inr 100"
    by (simp add: run_simps)
  have b: "item_type (super_chat ''X'' ''$0.50'' ''spawn zombies'') = ''superChat''"
    by (simp add: example_fields)
  have c: "(1 / 2 :: rat) < 1" by simp
  note w = threshold_gate [where p = "''spawn zombies''" and py = py_ascii
      and ctx = "(viewer ''X'')\<lparr>message_tags := Some [(''bits'', ''100'')]\<rparr>" and bits = 100
      and cfg = "twitch_defaults\<lparr>REQUIRE_BITS := True\<rparr>"
      and env = "brain_says (Response 200 [''status'' \<mapsto> JString ''queued''])" and cds = Map.empty
      and c = "super_chat ''X'' ''$0.50'' ''spawn zombies''" and ypy = py_ascii and ycfg = youtube_defaults
      and yenv = "brain_says (Response 200 [''status'' \<mapsto> JString ''queued''])" and ycds = Map.empty
      and m = "1 :: rat" and a = "1 / 2" and rq = True]
  from w have w4: "\<not> passes (1 / 2 :: rat) \<lparr>requirePayment = True, minimumAmount = 1\<rparr>"
    using c by blast
  have w3: "passes (100::int) \<lparr>requirePayment = True, minimumAmount = 100\<rparr>"
    by (simp add: passes_def)
  from w a w3 have w1: "Print Insufficient_bits \<notin> set (snd (snd (chaos py_ascii (twitch_defaults\<lparr>REQUIRE_BITS := True\<rparr>)
         (brain_says (Response 200 [''status'' \<mapsto> JString ''queued'']))
         ((viewer ''X'')\<lparr>message_tags := Some [(''bits'', ''100'')]\<rparr>) (Some ''spawn zombies'') Map.empty)))"
    by (simp add: case_prod_beta twitch_defaults_def)
  from w b w4 have w2: "posts (snd (snd (process_item py_ascii youtube_defaults
         (brain_says (Response 200 [''status'' \<mapsto> JString ''queued'']))
         (super_chat ''X'' ''$0.50'' ''spawn zombies'') Map.empty))) = []"
    by (simp add: case_prod_beta example_fields example_amounts)
  from a b c w1 w2 w3 w4 show ?thesis by blast
qed

subsection \<open>Amount strings that do not parse\<close>

text \<open>
  Claim C8. Only the characters of the amount string that are digits or the decimal
  point reach \<^verbatim>\<open>float\<close>: two strings with the same such characters get the same amount,
  and when \<^verbatim>\<open>float\<close> accepts them the amount is the number it returns.
  When \<^verbatim>\<open>float\<close> fails on them the amount is 0 and nothing is raised; for a positive
  minimum the Super Chat is then turned down at the threshold: the loop body returns
  normally with the cooldown dictionary unchanged and no POST, having printed that the
  amount is too low, and the loop goes on with the remaining items of the batch.
\<close>

theorem unparsable_amount_is_rejected:
  fixes cfg :: "('t::{minus,ord}, 'a::{zero,preorder}) youtube_settings"
  shows
  "(filter (\<lambda>x. str_isdigit py x \<or> x = CHR ''.'') s = filter (\<lambda>x. str_isdigit py x \<or> x = CHR ''.'') s'
      \<longrightarrow> amount_value py s = amount_value py s')
   \<and> (float_of_str py (filter (\<lambda>x. str_isdigit py x \<or> x = CHR ''.'') u) = Some v
      \<longrightarrow> amount_value py u = v)
   \<and> (float_of_str py (filter (\<lambda>x. str_isdigit py x \<or> x = CHR ''.'') (fst (format_super_chat_message c))) = None
      \<longrightarrow> amount_value py (fst (format_super_chat_message c)) = 0)
   \<and> (item_type c = ''superChat''
       \<and> float_of_str py (filter (\<lambda>x. str_isdigit py x \<or> x = CHR ''.'') (fst (format_super_chat_message c))) = None
       \<and> 0 < MIN_SUPER_CHAT_AMOUNT cfg
      \<longrightarrow> process_item py cfg env c cds =
            (None, cds, [Print (Super_chat_from (item_author c) (fst (format_super_chat_message c))
                                  (snd (format_super_chat_message c))),
                         Print (Message_line (item_message c)), Print Amount_too_low, Print Blank])
          \<and> process_items py cfg ((env, c) # rest) cds =
            (case process_items py cfg rest cds of
               (x, cds', out) \<Rightarrow>
                 (x, cds', [Print (Super_chat_from (item_author c) (fst (format_super_chat_message c))
                                     (snd (format_super_chat_message c))),
                            Print (Message_line (item_message c)), Print Amount_too_low, Print Blank] @ out)))"
proof (intro conjI impI)
  assume "filter (\<lambda>x. str_isdigit py x \<or> x = CHR ''.'') s = filter (\<lambda>x. str_isdigit py x \<or> x = CHR ''.'') s'"
  then show "amount_value py s = amount_value py s'"
    by (simp add: amount_value_def)
next
  assume "float_of_str py (filter (\<lambda>x. str_isdigit py x \<or> x = CHR ''.'') u) = Some v"
  then show "amount_value py u = v"
    by (simp add: amount_value_def)
next
  assume "float_of_str py (filter (\<lambda>x. str_isdigit py x \<or> x = CHR ''.'') (fst (format_super_chat_message c))) = None"
  then show "amount_value py (fst (format_super_chat_message c)) = 0"
    by (simp add: amount_value_def)
next
  assume h: "item_type c = ''superChat''
       \<and> float_of_str py (filter (\<lambda>x. str_isdigit py x \<or> x = CHR ''.'') (fst (format_super_chat_message c))) = None
       \<and> 0 < MIN_SUPER_CHAT_AMOUNT cfg"
  then have z: "amount_value py (fst (format_super_chat_message c)) = 0"
    by (simp add: amount_value_def)
  from h have "\<not> MIN_SUPER_CHAT_AMOUNT cfg \<le> 0"
    by (simp add: less_le_not_le)
  with z have low: "\<not> amount_value py (fst (format_super_chat_message c)) \<ge> MIN_SUPER_CHAT_AMOUNT cfg"
    by simp
  from h have t: "item_type c = ''superChat''" by simp
  note r = process_item_gate(2) [OF t low, where env = env and cds = cds]
  show "process_item py cfg env c cds =
            (None, cds, [Print (Super_chat_from (item_author c) (fst (format_super_chat_message c))
                                  (snd (format_super_chat_message c))),
                         Print (Message_line (item_message c)), Print Amount_too_low, Print Blank])"
    by (rule r)
  show "process_items py cfg ((env, c) # rest) cds =
            (case process_items py cfg rest cds of
               (x, cds', out) \<Rightarrow>
                 (x, cds', [Print (Super_chat_from (item_author c) (fst (format_super_chat_message c))
                                     (snd (format_super_chat_message c))),
                            Print (Message_line (item_message c)), Print Amount_too_low, Print Blank] @ out))"
    by (simp add: r)
qed

theorem unparsable_amount_is_rejected_witness:
  "filter (\<lambda>x. str_isdigit py_ascii x \<or> x = CHR ''.'') ''$1,000.50 USD'' = ''1000.50''
   \<and> float_of_str py_ascii (filter (\<lambda>x. str_isdigit py_ascii x \<or> x = CHR ''.'') ''$1,000.50 USD'')
       = Some (2001 / 2)
   \<and> amount_value py_ascii ''$1,000.50 USD'' = 2001 / 2
   \<and> item_type (super_chat ''X'' ''$1.2.3'' ''spawn zombies'') = ''superChat''
   \<and> float_of_str py_ascii (filter (\<lambda>x. str_isdigit py_ascii x \<or> x = CHR ''.'')
        (fst (format_super_chat_message (super_chat ''X'' ''$1.2.3'' ''spawn zombies'')))) = None
   \<and> (0 :: rat) < MIN_SUPER_CHAT_AMOUNT youtube_defaults
   \<and> process_item py_ascii youtube_defaults (brain_says (Response 200 [''status'' \<mapsto> JString ''queued'']))
        (super_chat ''X'' ''$1.2.3'' ''spawn zombies'') Map.empty
      = (None, Map.empty, [Print (Super_chat_from ''X'' ''$1.2.3'' ''USD''), Print (Message_line ''spawn zombies''),
           Print Amount_too_low, Print Blank])"
proof -
  have f: "filter (\<lambda>x. str_isdigit py_ascii x \<or> x = CHR ''.'') ''$1,000.50 USD'' = ''1000.50''"
    by (simp add: py_ascii_def ascii_digit_def in_range_def)
  have g: "float_of_str py_ascii (filter (\<lambda>x. str_isdigit py_ascii x \<or> x = CHR ''.'') ''$1,000.50 USD'')
       = Some (2001 / 2)"
    unfolding f by (simp add: py_ascii_def ascii_float_def digits_value_def ascii_digit_def in_range_def)
  note w = unparsable_amount_is_rejected [where py = py_ascii and cfg = youtube_defaults
      and u = "''$1,000.50 USD''" and v = "2001 / 2"
      and c = "super_chat ''X'' ''$1.2.3'' ''spawn zombies''"
      and env = "brain_says (Response 200 [''status'' \<mapsto> JString ''queued''])" and cds = Map.empty]
  from w g have v: "amount_value py_ascii ''$1,000.50 USD'' = 2001 / 2"
    by blast
  have a: "item_type (super_chat ''X'' ''$1.2.3'' ''spawn zombies'') = ''superChat''"
    by (simp add: example_fields)
  have b: "float_of_str py_ascii (filter (\<lambda>x. str_isdigit py_ascii x \<or> x = CHR ''.'')
        (fst (format_super_chat_message (super_chat ''X'' ''$1.2.3'' ''spawn zombies'')))) = None"
    by (simp add: example_fields py_ascii_def ascii_float_def ascii_digit_def in_range_def)
  have c: "(0 :: rat) < MIN_SUPER_CHAT_AMOUNT youtube_defaults"
    by (simp add: example_fields)
  from w [THEN conjunct2, THEN conjunct2, THEN conjunct2, rule_format, OF conjI, OF a conjI, OF b c,
      THEN conjunct1]
  have d: "process_item py_ascii youtube_defaults (brain_says (Response 200 [''status'' \<mapsto> JString ''queued'']))
        (super_chat ''X'' ''$1.2.3'' ''spawn zombies'') Map.empty
      = (None, Map.empty, [Print (Super_chat_from ''X'' ''$1.2.3'' ''USD''), Print (Message_line ''spawn zombies''),
           Print Amount_too_low, Print Blank])"
    by (simp add: example_fields)
  from f g v a b c d show ?thesis by blast
qed

end
